theory Spec2Isabelle
  imports Complex_Main
begin

section \<open>The currency converter (\<open>src/converter/converter.js\<close>)\<close>

text \<open>
  The program is one class, \<open>CurrencyConverter\<close>, driving a form: two currency selectors,
  an amount field, a submit button, a swap button and a results region. This theory embeds
  the class method by method. What the methods call but do not define (Number arithmetic,
  \<open>parseFloat\<close>, \<open>toFixed\<close>, \<open>Intl.NumberFormat\<close>, \<open>fetch\<close>, the form elements) is modelled
  first, after ECMAScript and the HTML standard.
\<close>

subsection \<open>Numbers\<close>

text \<open>
  A Number is \<open>NaN\<close>, an infinity or a finite value, kept as a sign (\<open>True\<close> for negative)
  and a magnitude, so that \<open>-0\<close> is \<open>Fin True 0\<close>. Magnitudes are never negative.
\<close>

datatype jsnum = NaN | Inf bool | Fin bool rat

definition value_of :: "bool \<Rightarrow> rat \<Rightarrow> rat" where
  "value_of neg q = (if neg then - q else q)"

text \<open>\<open>x > 0\<close>, \<open>x <= 0\<close> and the truthiness of \<open>x\<close> (every comparison with \<open>NaN\<close> is false).\<close>

fun gt0 :: "jsnum \<Rightarrow> bool" where
  "gt0 NaN = False"
| "gt0 (Inf neg) = (\<not> neg)"
| "gt0 (Fin neg q) = (0 < value_of neg q)"

fun le0 :: "jsnum \<Rightarrow> bool" where
  "le0 NaN = False"
| "le0 (Inf neg) = neg"
| "le0 (Fin neg q) = (value_of neg q \<le> 0)"

fun truthy :: "jsnum \<Rightarrow> bool" where
  "truthy NaN = False"
| "truthy (Inf neg) = True"
| "truthy (Fin neg q) = (q \<noteq> 0)"

fun is_finite :: "jsnum \<Rightarrow> bool" where
  "is_finite (Fin neg q) = True"
| "is_finite x = False"

text \<open>
  Rounding a magnitude to the nearest binary64 value, ties to even: 53 significant bits,
  least exponent \<open>-1074\<close>, and infinity from \<open>2 ^ 1024\<close> on.
\<close>

function bitlen :: "int \<Rightarrow> nat" where
  "bitlen n = (if n \<le> 0 then 0 else Suc (bitlen (n div 2)))"
  by pat_completeness auto
termination
  by (relation "measure nat") auto

declare bitlen.simps [simp del]

definition pow2 :: "int \<Rightarrow> rat" where
  "pow2 e = (if 0 \<le> e then 2 ^ nat e else 1 / 2 ^ nat (- e))"

definition floor_log2 :: "rat \<Rightarrow> int" where
  "floor_log2 q =
     (let (a, b) = quotient_of q;
          k = int (bitlen a) - int (bitlen b)
      in if pow2 k \<le> q then k else k - 1)"

definition round_half_even :: "rat \<Rightarrow> int" where
  "round_half_even r =
     (let f = \<lfloor>r\<rfloor>; d = r - of_int f
      in if d < 1 / 2 then f else if 1 / 2 < d then f + 1
         else if even f then f else f + 1)"

definition round64 :: "bool \<Rightarrow> rat \<Rightarrow> jsnum" where
  "round64 neg q =
     (if q = 0 then Fin neg 0
      else if 2 ^ 1024 \<le> q then Inf neg
      else let e = max (floor_log2 q - 52) (- 1074);
               v = of_int (round_half_even (q / pow2 e)) * pow2 e
           in if 2 ^ 1024 \<le> v then Inf neg else Fin neg v)"

text \<open>
  What IEEE 754 asks of the rounding, in its own words: the finite binary64 magnitudes are
  the \<open>m * 2 ^ e\<close> with \<open>m < 2 ^ 53\<close> and \<open>- 1074 \<le> e \<le> 971\<close>, and a rounded result is one of
  them that no other is closer to the exact value.
\<close>

definition binary64 :: "rat \<Rightarrow> bool" where
  "binary64 v =
     (\<exists>m e. v = of_int m * pow2 e \<and> 0 \<le> m \<and> m < 2 ^ 53 \<and> - 1074 \<le> e \<and> e \<le> 971)"

definition nearest_binary64 :: "rat \<Rightarrow> rat \<Rightarrow> bool" where
  "nearest_binary64 q v = (binary64 v \<and> (\<forall>w. binary64 w \<longrightarrow> \<bar>v - q\<bar> \<le> \<bar>w - q\<bar>))"

text \<open>Number division \<open>x / y\<close>: the sign is the exclusive or of the signs.\<close>

fun js_div :: "jsnum \<Rightarrow> jsnum \<Rightarrow> jsnum" where
  "js_div NaN y = NaN"
| "js_div x NaN = NaN"
| "js_div (Inf s) (Inf t) = NaN"
| "js_div (Inf s) (Fin t b) = Inf (s \<noteq> t)"
| "js_div (Fin s a) (Inf t) = Fin (s \<noteq> t) 0"
| "js_div (Fin s a) (Fin t b) =
     (if b = 0 then (if a = 0 then NaN else Inf (s \<noteq> t))
      else round64 (s \<noteq> t) (a / b))"

text \<open>A value read from a JSON object: a Number, or \<open>undefined\<close> when the key is missing.\<close>

datatype jsval = Undefined | Number jsnum

fun to_number :: "jsval \<Rightarrow> jsnum" where
  "to_number Undefined = NaN"
| "to_number (Number x) = x"

subsection \<open>\<open>parseFloat\<close>\<close>

text \<open>
  \<open>parseFloat\<close> skips leading white space, reads the longest prefix that is a
  \<open>StrDecimalLiteral\<close> and rounds its value; with no such prefix the result is \<open>NaN\<close>.
  Strings are byte strings here, so only the ASCII white space is skipped.
\<close>

definition is_ws :: "char \<Rightarrow> bool" where
  "is_ws c = (c \<in> set [CHR 0x09, CHR 0x0A, CHR 0x0B, CHR 0x0C, CHR 0x0D, CHR 0x20])"

definition is_digit :: "char \<Rightarrow> bool" where
  "is_digit c = (c \<in> set ''0123456789'')"

definition digit_value :: "char \<Rightarrow> int" where
  "digit_value c = of_char c - 48"

definition digits_value :: "string \<Rightarrow> int" where
  "digits_value ds = foldl (\<lambda>n c. 10 * n + digit_value c) 0 ds"

text \<open>The exponent part \<open>e\<close>, \<open>e+\<close> or \<open>e-\<close> with digits; without digits there is none.\<close>

definition exponent_part :: "string \<Rightarrow> int" where
  "exponent_part s =
     (case s of
        [] \<Rightarrow> 0
      | c # t \<Rightarrow>
          if c = CHR ''e'' \<or> c = CHR ''E'' then
            (case t of
               [] \<Rightarrow> 0
             | d # u \<Rightarrow>
                 if d = CHR ''-'' then - digits_value (takeWhile is_digit u)
                 else if d = CHR ''+'' then digits_value (takeWhile is_digit u)
                 else digits_value (takeWhile is_digit t))
          else 0)"

datatype magnitude = Infinite | Finite rat

definition scale10 :: "rat \<Rightarrow> int \<Rightarrow> rat" where
  "scale10 q e = (if 0 \<le> e then q * 10 ^ nat e else q / 10 ^ nat (- e))"

definition str_unsigned_decimal :: "string \<Rightarrow> magnitude option" where
  "str_unsigned_decimal s =
     (if take 8 s = ''Infinity'' then Some Infinite
      else
        let ip = takeWhile is_digit s;
            r1 = dropWhile is_digit s;
            dot = (r1 \<noteq> [] \<and> hd r1 = CHR ''.'');
            fp = (if dot then takeWhile is_digit (tl r1) else []);
            r2 = (if dot then dropWhile is_digit (tl r1) else r1)
        in if ip = [] \<and> fp = [] then None
           else Some (Finite (scale10
                  (of_int (digits_value ip) + of_int (digits_value fp) / 10 ^ length fp)
                  (exponent_part r2))))"

definition parseFloat :: "string \<Rightarrow> jsnum" where
  "parseFloat s =
     (let t = dropWhile is_ws s;
          neg = (t \<noteq> [] \<and> hd t = CHR ''-'');
          u = (if t \<noteq> [] \<and> (hd t = CHR ''-'' \<or> hd t = CHR ''+'') then tl t else t)
      in case str_unsigned_decimal u of
           None \<Rightarrow> NaN
         | Some Infinite \<Rightarrow> Inf neg
         | Some (Finite q) \<Rightarrow> round64 neg q)"

subsection \<open>The runtime's formatting\<close>

text \<open>
  Four parts of the library are parameters of the model:
  \<^item> \<open>numberFormat code\<close> is \<open>new Intl.NumberFormat('en-US', {style: 'currency',
    currency: code, minimumFractionDigits: 2, maximumFractionDigits: 2})\<close>: \<open>None\<close> when the
    constructor throws a \<open>RangeError\<close> for the code, else the formatter's \<open>format\<close>;
  \<^item> \<open>shortest_decimal\<close> is the string \<open>Number.prototype.toString\<close> gives a positive
    finite value that is not an integer below \<open>2 ^ 53\<close> (the shortest digits that read
    back as the same Number, laid out as a decimal or with an exponent);
  \<^item> \<open>localeCompare\<close> is \<open>String.prototype.localeCompare\<close>;
  \<^item> \<open>inherited name\<close> is what a template literal prints for the property \<open>name\<close> that
    a plain object inherits from \<open>Object.prototype\<close> (such as \<open>constructor\<close>), \<open>None\<close>
    when it inherits no such property.
\<close>

record runtime =
  numberFormat :: "string \<Rightarrow> (jsnum \<Rightarrow> string) option"
  shortest_decimal :: "rat \<Rightarrow> string"
  localeCompare :: "string \<Rightarrow> string \<Rightarrow> int"
  inherited :: "string \<Rightarrow> string option"

function digits_of :: "int \<Rightarrow> string" where
  "digits_of n =
     (if n < 10 then [''0123456789'' ! nat n]
      else digits_of (n div 10) @ [''0123456789'' ! nat (n mod 10)])"
  by pat_completeness auto
termination
  by (relation "measure nat") auto

declare digits_of.simps [simp del]

text \<open>
  \<open>String(x)\<close> for a Number, as in template literals. Every integer below \<open>2 ^ 53\<close> is a
  Number, so its shortest digits are its own; from \<open>2 ^ 53\<close> on they may be fewer and
  followed by zeros, as in \<open>18446744073709552000\<close> for \<open>2 ^ 64\<close>.
\<close>

fun num_to_string :: "runtime \<Rightarrow> jsnum \<Rightarrow> string" where
  "num_to_string rt NaN = ''NaN''"
| "num_to_string rt (Inf neg) = (if neg then ''-Infinity'' else ''Infinity'')"
| "num_to_string rt (Fin neg q) =
     (if q = 0 then ''0''
      else (if neg then ''-'' else '''') @
           (if q = of_int \<lfloor>q\<rfloor> \<and> q < 2 ^ 53 then digits_of \<lfloor>q\<rfloor>
            else shortest_decimal rt q))"

text \<open>
  \<open>x.toFixed(2)\<close>: below \<open>10 ^ 21\<close> the integer \<open>n\<close> nearest to \<open>100 * x\<close> (the larger of
  two), written with at least three digits and a point before the last two.
\<close>

definition toFixed2 :: "runtime \<Rightarrow> jsnum \<Rightarrow> string" where
  "toFixed2 rt x =
     (case x of
        Fin neg q \<Rightarrow>
          (if value_of neg q < 0 then ''-'' else '''') @
          (if 10 ^ 21 \<le> q then num_to_string rt (Fin False q)
           else let m = digits_of \<lfloor>q * 100 + 1 / 2\<rfloor>;
                    m' = replicate (3 - length m) (CHR ''0'') @ m
                in take (length m' - 2) m' @ ''.'' @ drop (length m' - 2) m')
      | _ \<Rightarrow> num_to_string rt x)"

subsection \<open>The page and the rate service\<close>

text \<open>
  A selector is its list of options (text and value) and its \<open>value\<close>. Assigning \<open>value\<close>
  selects the option with that value; when there is none, nothing is selected and \<open>value\<close>
  reads as the empty string.
\<close>

record select =
  sel_options :: "(string \<times> string) list"
  sel_value :: string

definition set_value :: "string \<Rightarrow> select \<Rightarrow> select" where
  "set_value v sel = sel\<lparr>sel_value := (if v \<in> snd ` set (sel_options sel) then v else [])\<rparr>"

definition new_Option :: "string \<Rightarrow> string \<Rightarrow> string \<times> string" where
  "new_Option text v = (text, v)"

definition appendChild :: "string \<times> string \<Rightarrow> select \<Rightarrow> select" where
  "appendChild opt sel = sel\<lparr>sel_options := sel_options sel @ [opt]\<rparr>"

text \<open>
  \<open>innerHTML = '<option value="">Select Currency</option>'\<close>: the selector holds that one
  option, which is selected.
\<close>

definition placeholder :: select where
  "placeholder = \<lparr>sel_options = [(''Select Currency'', [])], sel_value = []\<rparr>"

text \<open>
  The results region holds whatever the page's markup put there, or one of the three
  templates the class writes; the fields of \<open>ResultView\<close> are the template's holes.
\<close>

datatype content =
    Markup string
  | LoadingView string
  | ErrorView string
  | ResultView (formattedAmount: string) (displayAmount: string) (fromCode: string)
      (formattedRate: string) (toCurrencyName: string)

datatype exn = FetchFailed | HttpError nat | JsonError | TypeError

text \<open>
  What \<open>await fetch(url)\<close> gives: a rejection, or a response with its \<open>ok\<close> flag, its status
  and what \<open>response.json()\<close> resolves to (\<open>None\<close> when it rejects). The service answers
  \<open>/currencies\<close> with an object from codes to names, kept as the list of its entries, and
  \<open>/latest\<close> with an object whose \<open>rates\<close> maps codes to Numbers (\<open>None\<close> when the body has
  no \<open>rates\<close> object, so that indexing it throws).
\<close>

datatype 'a fetched = Rejected | Response bool nat "'a option"

record service =
  get_currencies :: "string \<Rightarrow> (string \<times> string) list fetched"
  get_latest :: "string \<Rightarrow> (string \<Rightarrow> jsval) option fetched"

record conversion =
  conv_fromCurrency :: string
  conv_toCurrency :: string
  conv_amount :: jsnum
  conv_rate :: jsnum

text \<open>
  The fields of the object and the state of the elements it holds (\<open>currentRates\<close> is
  never read and is left out). \<open>requests\<close> lists the URLs fetched so far and \<open>console\<close>
  the errors logged, oldest first. An asynchronous method is run to its end in one step,
  with the response its \<open>fetch\<close> receives; no other event comes in between.
\<close>

record converter =
  currencies :: "(string \<times> string) list"
  lastConversion :: "conversion option"
  fromCurrency :: select
  toCurrency :: select
  amountInput :: string
  convertBtn_disabled :: bool
  resultsContent :: content
  requests :: "string list"
  console :: "exn list"

definition apiBaseUrl :: string where
  "apiBaseUrl = ''https://api.frankfurter.app''"

subsection \<open>The methods\<close>

definition showLoading :: "string \<Rightarrow> converter \<Rightarrow> converter" where
  "showLoading message st = st\<lparr>resultsContent := LoadingView message\<rparr>"

definition hideLoading :: "converter \<Rightarrow> converter" where
  "hideLoading st = st"

definition showError :: "string \<Rightarrow> converter \<Rightarrow> converter" where
  "showError message st = st\<lparr>resultsContent := ErrorView message\<rparr>"

definition validateForm :: "converter \<Rightarrow> converter" where
  "validateForm st =
     (let isValid = (sel_value (fromCurrency st) \<noteq> [] \<and>
                     sel_value (toCurrency st) \<noteq> [] \<and>
                     amountInput st \<noteq> [] \<and>
                     gt0 (parseFloat (amountInput st)))
      in st\<lparr>convertBtn_disabled := \<not> isValid\<rparr>)"

text \<open>
  \<open>formatCurrency\<close>: the \<open>catch\<close> branch calls \<open>amount.toFixed(2)\<close>, which throws a
  \<open>TypeError\<close> when \<open>amount\<close> is \<open>undefined\<close>.
\<close>

definition formatCurrency :: "runtime \<Rightarrow> jsval \<Rightarrow> string \<Rightarrow> exn + string" where
  "formatCurrency rt amount currencyCode =
     (case numberFormat rt currencyCode of
        Some format \<Rightarrow> Inr (format (to_number amount))
      | None \<Rightarrow>
          (case amount of
             Undefined \<Rightarrow> Inl TypeError
           | Number x \<Rightarrow> Inr (currencyCode @ '' '' @ toFixed2 rt x)))"

text \<open>
  \<open>this.currencies[code] || code\<close>: the object's own entry when it has one (an empty name
  is falsy and gives the code), else what the object inherits under that name, else the
  code.
\<close>

definition name_or_code :: "runtime \<Rightarrow> (string \<times> string) list \<Rightarrow> string \<Rightarrow> string" where
  "name_or_code rt cs code =
     (case map_of cs code of
        Some name \<Rightarrow> if name \<noteq> [] then name else code
      | None \<Rightarrow> (case inherited rt code of Some text \<Rightarrow> text | None \<Rightarrow> code))"

text \<open>
  \<open>displayResult\<close> formats the amount, then the rate inside the template, and only then
  assigns \<open>innerHTML\<close>: when a format throws, the region is untouched. The name of the
  source currency is computed but not shown.
\<close>

definition displayResult ::
  "runtime \<Rightarrow> jsval \<Rightarrow> string \<Rightarrow> string \<Rightarrow> jsnum \<Rightarrow> jsnum option \<Rightarrow> converter
     \<Rightarrow> exn + converter" where
  "displayResult rt convertedAmount fromValue toValue rate originalAmount st =
     (let toName = name_or_code rt (currencies st) toValue
      in case formatCurrency rt convertedAmount toValue of
           Inl e \<Rightarrow> Inl e
         | Inr formatted \<Rightarrow>
             (let shown =
                    (case originalAmount of
                       Some a \<Rightarrow> if truthy a then a else parseFloat (amountInput st)
                     | None \<Rightarrow> parseFloat (amountInput st))
              in (case formatCurrency rt (Number rate) toValue of
                    Inl e \<Rightarrow> Inl e
                  | Inr formattedR \<Rightarrow>
                      Inr (st\<lparr>resultsContent :=
                             ResultView formatted (num_to_string rt shown) fromValue
                               formattedR toName\<rparr>))))"

text \<open>
  \<open>performConversion\<close>. \<open>latest_url\<close> is the template literal of the request;
  \<open>convert_try\<close> is the \<open>try\<close> block from the response on, \<open>Inl\<close> where it throws.
\<close>

definition latest_url :: "runtime \<Rightarrow> jsnum \<Rightarrow> string \<Rightarrow> string \<Rightarrow> string" where
  "latest_url rt amount fromValue toValue =
     apiBaseUrl @ ''/latest?amount='' @ num_to_string rt amount @
       ''&from='' @ fromValue @ ''&to='' @ toValue"

definition convert_try ::
  "runtime \<Rightarrow> (string \<Rightarrow> jsval) option fetched \<Rightarrow> string \<Rightarrow> string \<Rightarrow> jsnum \<Rightarrow> converter
     \<Rightarrow> exn + converter" where
  "convert_try rt response fromValue toValue amount st =
     (case response of
        Rejected \<Rightarrow> Inl FetchFailed
      | Response ok status body \<Rightarrow>
          if \<not> ok then Inl (HttpError status)
          else
            (case body of
               None \<Rightarrow> Inl JsonError
             | Some None \<Rightarrow> Inl TypeError
             | Some (Some rates) \<Rightarrow>
                 (let convertedAmount = rates toValue;
                      rate = js_div (to_number convertedAmount) amount
                  in (case displayResult rt convertedAmount fromValue toValue rate
                             (Some amount) st of
                        Inl e \<Rightarrow> Inl e
                      | Inr st' \<Rightarrow>
                          Inr (st'\<lparr>lastConversion :=
                                 Some \<lparr>conv_fromCurrency = fromValue, conv_toCurrency = toValue,
                                       conv_amount = amount, conv_rate = rate\<rparr>\<rparr>)))))"

definition performConversion :: "runtime \<Rightarrow> service \<Rightarrow> converter \<Rightarrow> exn + converter" where
  "performConversion rt svc st =
     (let fromValue = sel_value (fromCurrency st);
          toValue = sel_value (toCurrency st);
          amount = parseFloat (amountInput st)
      in if fromValue = [] \<or> toValue = [] \<or> \<not> truthy amount \<or> le0 amount then
           Inr (showError ''Please fill in all fields with valid values.'' st)
         else if fromValue = toValue then
           displayResult rt (Number amount) fromValue toValue (Fin False 1) None st
         else
           let st1 = (showLoading ''Converting...'' st)\<lparr>convertBtn_disabled := True\<rparr>;
               url = latest_url rt amount fromValue toValue;
               st2 = st1\<lparr>requests := requests st1 @ [url]\<rparr>;
               st3 = (case convert_try rt (get_latest svc url) fromValue toValue amount st2 of
                        Inr st' \<Rightarrow> st'
                      | Inl error \<Rightarrow>
                          showError ''Failed to convert currency. Please try again.''
                            (st2\<lparr>console := console st2 @ [error]\<rparr>))
           in Inr (validateForm (hideLoading st3)))"

definition handleConversion :: "runtime \<Rightarrow> service \<Rightarrow> converter \<Rightarrow> exn + converter" where
  "handleConversion rt svc st = performConversion rt svc st"

text \<open>
  \<open>swapCurrencies\<close> calls \<open>performConversion\<close> without awaiting it: an exception there
  would reject a promise nobody holds, and the swap itself has returned.
\<close>

definition swapCurrencies :: "runtime \<Rightarrow> service \<Rightarrow> converter \<Rightarrow> converter" where
  "swapCurrencies rt svc st =
     (let fromValue = sel_value (fromCurrency st);
          toValue = sel_value (toCurrency st)
      in if fromValue \<noteq> [] \<and> toValue \<noteq> [] then
           let st1 = st\<lparr>fromCurrency := set_value toValue (fromCurrency st)\<rparr>;
               st2 = st1\<lparr>toCurrency := set_value fromValue (toCurrency st1)\<rparr>
           in if lastConversion st2 \<noteq> None \<and> amountInput st2 \<noteq> [] then
                (case performConversion rt svc st2 of Inr st' \<Rightarrow> st' | Inl e \<Rightarrow> st2)
              else st2
         else st)"

text \<open>
  \<open>populateCurrencyDropdowns\<close>: the entries sorted by \<open>localeCompare\<close> on the codes (the
  sort is stable), then one option per entry appended to each selector.
\<close>

fun insert_entry ::
  "(string \<Rightarrow> string \<Rightarrow> int) \<Rightarrow> string \<times> string \<Rightarrow> (string \<times> string) list
     \<Rightarrow> (string \<times> string) list" where
  "insert_entry cmp x [] = [x]"
| "insert_entry cmp x (y # ys) =
     (if cmp (fst x) (fst y) \<le> 0 then x # y # ys else y # insert_entry cmp x ys)"

definition sort_entries ::
  "(string \<Rightarrow> string \<Rightarrow> int) \<Rightarrow> (string \<times> string) list \<Rightarrow> (string \<times> string) list" where
  "sort_entries cmp xs = foldr (insert_entry cmp) xs []"

definition populateCurrencyDropdowns :: "runtime \<Rightarrow> converter \<Rightarrow> converter" where
  "populateCurrencyDropdowns rt st =
     (let currencyEntries = sort_entries (localeCompare rt) (currencies st);
          st1 = st\<lparr>fromCurrency := placeholder, toCurrency := placeholder\<rparr>
      in foldl (\<lambda>s (code, name).
                  s\<lparr>fromCurrency :=
                       appendChild (new_Option (code @ '' - '' @ name) code) (fromCurrency s),
                     toCurrency :=
                       appendChild (new_Option (code @ '' - '' @ name) code) (toCurrency s)\<rparr>)
           st1 currencyEntries)"

text \<open>\<open>this.currencies.USD\<close> as a condition: the name is there and not empty.\<close>

definition has_name :: "(string \<times> string) list \<Rightarrow> string \<Rightarrow> bool" where
  "has_name cs code = (case map_of cs code of Some name \<Rightarrow> name \<noteq> [] | None \<Rightarrow> False)"

definition setDefaultCurrencies :: "converter \<Rightarrow> converter" where
  "setDefaultCurrencies st =
     (let st1 = (if has_name (currencies st) ''USD''
                 then st\<lparr>fromCurrency := set_value ''USD'' (fromCurrency st)\<rparr> else st);
          st2 = (if has_name (currencies st1) ''EUR''
                 then st1\<lparr>toCurrency := set_value ''EUR'' (toCurrency st1)\<rparr> else st1)
      in validateForm st2)"

definition load_try ::
  "runtime \<Rightarrow> (string \<times> string) list fetched \<Rightarrow> converter \<Rightarrow> exn + converter" where
  "load_try rt response st =
     (case response of
        Rejected \<Rightarrow> Inl FetchFailed
      | Response ok status body \<Rightarrow>
          if \<not> ok then Inl (HttpError status)
          else
            (case body of
               None \<Rightarrow> Inl JsonError
             | Some cs \<Rightarrow>
                 Inr (hideLoading (setDefaultCurrencies
                        (populateCurrencyDropdowns rt (st\<lparr>currencies := cs\<rparr>))))))"

definition loadCurrencies :: "runtime \<Rightarrow> service \<Rightarrow> converter \<Rightarrow> exn + converter" where
  "loadCurrencies rt svc st =
     (let st1 = showLoading ''Loading currencies...'' st;
          url = apiBaseUrl @ ''/currencies'';
          st2 = st1\<lparr>requests := requests st1 @ [url]\<rparr>
      in case load_try rt (get_currencies svc url) st2 of
           Inr st' \<Rightarrow> Inr st'
         | Inl error \<Rightarrow>
             Inr (showError ''Failed to load currencies. Please refresh the page.''
                    (st2\<lparr>console := console st2 @ [error]\<rparr>)))"

text \<open>
  The constructor, on the page as its markup left it (the selectors, the field, the button
  and the region of \<open>page\<close>): it clears the two fields and loads the catalog.
\<close>

definition new_CurrencyConverter :: "runtime \<Rightarrow> service \<Rightarrow> converter \<Rightarrow> exn + converter" where
  "new_CurrencyConverter rt svc page =
     loadCurrencies rt svc (page\<lparr>currencies := [], lastConversion := None\<rparr>)"

subsection \<open>Responses that fail, substrings, and sample data\<close>

text \<open>
  A fetch has failed when it was rejected, when the status is not a success or when the
  body is not JSON.
\<close>

fun failed :: "'a fetched \<Rightarrow> bool" where
  "failed Rejected = True"
| "failed (Response ok status body) = (\<not> ok \<or> body = None)"

fun contains :: "string \<Rightarrow> string \<Rightarrow> bool" where
  "contains [] sub = (sub = [])"
| "contains (c # cs) sub = (take (length sub) (c # cs) = sub \<or> contains cs sub)"

text \<open>
  A form as \<open>populateCurrencyDropdowns\<close> leaves it for the catalog of US dollar and euro,
  with given selections, amount and last conversion.
\<close>

definition sample_options :: "(string \<times> string) list" where
  "sample_options =
     [(''Select Currency'', []), (''EUR - Euro'', ''EUR''), (''USD - US Dollar'', ''USD'')]"

definition sample_form :: "string \<Rightarrow> string \<Rightarrow> string \<Rightarrow> conversion option \<Rightarrow> converter" where
  "sample_form f t a lc =
     \<lparr>currencies = [(''USD'', ''US Dollar''), (''EUR'', ''Euro'')],
      lastConversion = lc,
      fromCurrency = \<lparr>sel_options = sample_options, sel_value = f\<rparr>,
      toCurrency = \<lparr>sel_options = sample_options, sel_value = t\<rparr>,
      amountInput = a,
      convertBtn_disabled = False,
      resultsContent = Markup [],
      requests = [],
      console = []\<rparr>"

definition sample_conversion :: conversion where
  "sample_conversion =
     \<lparr>conv_fromCurrency = ''USD'', conv_toCurrency = ''EUR'',
      conv_amount = Fin False 10, conv_rate = Fin False (5 / 2)\<rparr>"

text \<open>
  Modelled from the spec: the page's markup is not under \<open>src/\<close>; the spec has each
  selector hold only the default placeholder option until the catalog is loaded. The amount
  field is empty and the results region has no content.
\<close>

definition blank_page :: converter where
  "blank_page =
     \<lparr>currencies = [],
      lastConversion = None,
      fromCurrency = placeholder,
      toCurrency = placeholder,
      amountInput = [],
      convertBtn_disabled = False,
      resultsContent = Markup [],
      requests = [],
      console = []\<rparr>"

text \<open>
  What a plain object inherits, as V8 prints it: the methods of \<open>Object.prototype\<close> and
  \<open>__proto__\<close>, which is \<open>Object.prototype\<close> itself.
\<close>

definition object_prototype_text :: "string \<Rightarrow> string option" where
  "object_prototype_text name =
     (if name = ''__proto__'' then Some ''[object Object]''
      else if name = ''constructor'' then Some ''function Object() { [native code] }''
      else if name \<in> set [''hasOwnProperty'', ''isPrototypeOf'', ''propertyIsEnumerable'',
                ''toLocaleString'', ''toString'', ''valueOf'', ''__defineGetter__'',
                ''__defineSetter__'', ''__lookupGetter__'', ''__lookupSetter__'']
      then Some (''function '' @ name @ ''() { [native code] }'')
      else None)"

text \<open>
  A runtime whose \<open>Intl.NumberFormat\<close> knows no currency and whose \<open>localeCompare\<close>
  compares byte by byte, and two services: one that answers, one that fails.
\<close>

fun byte_compare :: "string \<Rightarrow> string \<Rightarrow> int" where
  "byte_compare [] [] = 0"
| "byte_compare [] (y # ys) = - 1"
| "byte_compare (x # xs) [] = 1"
| "byte_compare (x # xs) (y # ys) =
     (if x = y then byte_compare xs ys
      else if (of_char x :: nat) < of_char y then - 1 else 1)"

definition sample_runtime :: runtime where
  "sample_runtime =
     \<lparr>numberFormat = (\<lambda>code. None),
      shortest_decimal = (\<lambda>q. []),
      localeCompare = byte_compare,
      inherited = object_prototype_text\<rparr>"

definition rates_service :: service where
  "rates_service =
     \<lparr>get_currencies =
        (\<lambda>url. Response True 200 (Some [(''USD'', ''US Dollar''), (''EUR'', ''Euro'')])),
      get_latest =
        (\<lambda>url. Response True 200 (Some (Some (\<lambda>code.
           if code = ''EUR'' then Number (Fin False 25)
           else if code = ''USD'' then Number (Fin False 4)
           else Undefined))))\<rparr>"

definition failing_service :: service where
  "failing_service =
     \<lparr>get_currencies = (\<lambda>url. Rejected),
      get_latest = (\<lambda>url. Response False 500 None)\<rparr>"

text \<open>
  A runtime whose \<open>Intl.NumberFormat\<close> follows ECMA-402 for the locale \<open>en-US\<close>. The
  constructor throws exactly for a code that is not well-formed, that is, not three ASCII
  letters. The formatter writes a minus sign for a negative Number, the currency symbol, the
  integer digits in groups of three and two fraction digits, rounding half away from zero.
  The symbols are those of USD, EUR and XXX (the generic currency sign); another code is
  shown by its letters and a no-break space. Strings are bytes, so a sign beyond ASCII is
  its UTF-8 bytes. The amounts used with this runtime are integers below \<open>2 ^ 53\<close>, which
  \<open>String\<close> prints without \<open>shortest_decimal\<close>; it is left empty, as in
  \<open>sample_runtime\<close>.
\<close>

definition is_ascii_letter :: "char \<Rightarrow> bool" where
  "is_ascii_letter c =
     ((65 \<le> (of_char c :: nat) \<and> (of_char c :: nat) \<le> 90) \<or>
      (97 \<le> (of_char c :: nat) \<and> (of_char c :: nat) \<le> 122))"

definition well_formed_currency_code :: "string \<Rightarrow> bool" where
  "well_formed_currency_code code = (length code = 3 \<and> list_all is_ascii_letter code)"

definition ascii_upper :: "char \<Rightarrow> char" where
  "ascii_upper c =
     (if 97 \<le> (of_char c :: nat) \<and> (of_char c :: nat) \<le> 122
      then char_of ((of_char c :: nat) - 32) else c)"

definition euro_sign :: string where
  "euro_sign = [CHR 0xE2, CHR 0x82, CHR 0xAC]"

definition generic_currency_sign :: string where
  "generic_currency_sign = [CHR 0xC2, CHR 0xA4]"

definition infinity_sign :: string where
  "infinity_sign = [CHR 0xE2, CHR 0x88, CHR 0x9E]"

definition no_break_space :: string where
  "no_break_space = [CHR 0xC2, CHR 0xA0]"

definition en_US_symbol :: "string \<Rightarrow> string" where
  "en_US_symbol code =
     (if code = ''USD'' then ''$''
      else if code = ''EUR'' then euro_sign
      else if code = ''XXX'' then generic_currency_sign
      else code @ no_break_space)"

function group_thousands :: "string \<Rightarrow> string" where
  "group_thousands ds =
     (if length ds \<le> 3 then ds
      else group_thousands (take (length ds - 3) ds) @ '','' @ drop (length ds - 3) ds)"
  by pat_completeness auto
termination
  by (relation "measure length") auto

declare group_thousands.simps [simp del]

definition en_US_number :: "rat \<Rightarrow> string" where
  "en_US_number q =
     (let n = \<lfloor>q * 100 + 1 / 2\<rfloor>
      in group_thousands (digits_of (n div 100)) @ ''.'' @
         [''0123456789'' ! nat (n mod 100 div 10), ''0123456789'' ! nat (n mod 10)])"

definition en_US_currency :: "string \<Rightarrow> jsnum \<Rightarrow> string" where
  "en_US_currency code x =
     (case x of
        NaN \<Rightarrow> en_US_symbol code @ ''NaN''
      | Inf neg \<Rightarrow> (if neg then ''-'' else []) @ en_US_symbol code @ infinity_sign
      | Fin neg q \<Rightarrow> (if neg then ''-'' else []) @ en_US_symbol code @ en_US_number q)"

definition en_US :: runtime where
  "en_US =
     \<lparr>numberFormat =
        (\<lambda>code. if well_formed_currency_code code
                then Some (en_US_currency (map ascii_upper code)) else None),
      shortest_decimal = (\<lambda>q. []),
      localeCompare = byte_compare,
      inherited = object_prototype_text\<rparr>"

text \<open>
  The service of the spec's scenario: 92.15 euros for 100 US dollars, 92.15 being the
  Number \<open>3242239887985869 / 2 ^ 45\<close>.
\<close>

definition quote_service :: service where
  "quote_service =
     \<lparr>get_currencies =
        (\<lambda>url. Response True 200 (Some [(''USD'', ''US Dollar''), (''EUR'', ''Euro'')])),
      get_latest =
        (\<lambda>url. Response True 200 (Some (Some (\<lambda>code.
           if code = ''EUR'' then Number (Fin False (3242239887985869 / 35184372088832))
           else Undefined))))\<rparr>"

section \<open>Properties\<close>

subsection \<open>Evaluating the number model\<close>

text \<open>
  \<open>round64\<close> meets the IEEE 754 rule: a finite result is a binary64 magnitude nearest to
  the exact value, and the result is an infinity only from \<open>2 ^ 1024 - 2 ^ 970\<close> on.
\<close>

lemma pow2_powi: "pow2 e = 2 powi e"
  by (simp add: pow2_def power_int_def inverse_eq_divide power_one_over)

lemma pow2_pos: "0 < pow2 e"
  by (simp add: pow2_powi)

lemma pow2_add: "pow2 (a + b) = pow2 a * pow2 b"
  by (simp add: pow2_powi power_int_add)

lemma pow2_mono: "a \<le> b \<Longrightarrow> pow2 a \<le> pow2 b"
  by (simp add: pow2_powi power_int_increasing)

lemma pow2_strict: "a < b \<Longrightarrow> pow2 a < pow2 b"
  by (simp add: pow2_powi power_int_strict_increasing)

lemma pow2_nat: "pow2 (int n) = 2 ^ n"
  by (simp add: pow2_def)

lemma pow2_minus: "pow2 (- e) = 1 / pow2 e"
  by (simp add: pow2_powi power_int_minus_divide)

lemma bitlen_bounds: "0 < n \<Longrightarrow> 2 ^ (bitlen n - 1) \<le> n \<and> n < 2 ^ bitlen n"
proof (induction n rule: bitlen.induct)
  case (1 n)
  show ?case
  proof (cases "n = 1")
    case True
    then show ?thesis by (simp add: bitlen.simps)
  next
    case False
    with "1.prems" have big: "2 \<le> n" by simp
    then have half: "0 < n div 2" by simp
    have ih: "2 ^ (bitlen (n div 2) - 1) \<le> n div 2 \<and> n div 2 < 2 ^ bitlen (n div 2)"
      using "1.IH" half "1.prems" by simp
    have unfold: "bitlen n = Suc (bitlen (n div 2))"
      using "1.prems" by (subst bitlen.simps) simp
    have pos: "0 < bitlen (n div 2)"
      using half by (subst bitlen.simps) simp
    then have "(2::int) ^ bitlen (n div 2) = 2 * 2 ^ (bitlen (n div 2) - 1)"
      by (cases "bitlen (n div 2)") simp_all
    with ih have low: "2 ^ bitlen (n div 2) \<le> 2 * (n div 2)" by simp
    have "2 * (n div 2) \<le> n" by simp
    with low have l: "2 ^ bitlen (n div 2) \<le> n" by linarith
    have "n < 2 * (n div 2) + 2" by presburger
    with ih have u: "n < 2 * 2 ^ bitlen (n div 2)" by linarith
    from l u unfold show ?thesis by simp
  qed
qed

lemma floor_log2_bounds:
  assumes "0 < q"
  shows "pow2 (floor_log2 q) \<le> q \<and> q < pow2 (floor_log2 q + 1)"
proof -
  obtain a b where ab: "quotient_of q = (a, b)" by (cases "quotient_of q")
  then have b: "0 < b" by (rule quotient_of_denom_pos)
  from ab have q: "q = of_int a / of_int b" by (rule quotient_of_div)
  with assms b have a: "0 < a"
    by (simp add: zero_less_divide_iff)
  let ?la = "bitlen a" and ?lb = "bitlen b"
  let ?k = "int ?la - int ?lb"
  from bitlen_bounds [OF a] have a1: "(2::int) ^ (?la - 1) \<le> a" and a2: "a < 2 ^ ?la" by simp_all
  from bitlen_bounds [OF b] have b1: "(2::int) ^ (?lb - 1) \<le> b" and b2: "b < 2 ^ ?lb" by simp_all
  have la: "0 < ?la" using a by (subst bitlen.simps) simp
  have lb: "0 < ?lb" using b by (subst bitlen.simps) simp
  have ra1: "(2::rat) ^ (?la - 1) \<le> of_int a"
    using a1 by (metis of_int_le_iff of_int_numeral of_int_power)
  have ra2: "of_int a < (2::rat) ^ ?la"
    using a2 by (metis of_int_less_iff of_int_numeral of_int_power)
  have rb1: "(2::rat) ^ (?lb - 1) \<le> of_int b"
    using b1 by (metis of_int_le_iff of_int_numeral of_int_power)
  have rb2: "of_int b < (2::rat) ^ ?lb"
    using b2 by (metis of_int_less_iff of_int_numeral of_int_power)
  have rb: "(0::rat) < of_int b" using b by simp
  have upper: "q < pow2 (?k + 1)"
  proof -
    have "?k + 1 = int ?la + (- int (?lb - 1))"
      using lb by (simp add: of_nat_diff)
    then have "pow2 (?k + 1) = pow2 (int ?la) * pow2 (- int (?lb - 1))"
      by (simp only: pow2_add)
    also have "\<dots> = 2 ^ ?la / 2 ^ (?lb - 1)"
      by (simp add: pow2_minus pow2_nat)
    finally have e: "pow2 (?k + 1) = 2 ^ ?la / 2 ^ (?lb - 1)" .
    have "q < 2 ^ ?la / of_int b"
      unfolding q using ra2 rb by (simp add: divide_strict_right_mono)
    also have "\<dots> \<le> 2 ^ ?la / 2 ^ (?lb - 1)"
      using rb1 by (simp add: frac_le)
    finally show ?thesis using e by simp
  qed
  have lower: "pow2 (?k - 1) \<le> q"
  proof -
    have "?k - 1 = int (?la - 1) + (- int ?lb)"
      using la by (simp add: of_nat_diff)
    then have "pow2 (?k - 1) = pow2 (int (?la - 1)) * pow2 (- int ?lb)"
      by (simp only: pow2_add)
    also have "\<dots> = 2 ^ (?la - 1) / 2 ^ ?lb"
      by (simp add: pow2_minus pow2_nat)
    finally have e: "pow2 (?k - 1) = 2 ^ (?la - 1) / 2 ^ ?lb" .
    have "(2::rat) ^ (?la - 1) / 2 ^ ?lb \<le> 2 ^ (?la - 1) / of_int b"
      using rb2 rb by (simp add: frac_le)
    also have "\<dots> \<le> q"
      unfolding q using ra1 rb by (simp add: divide_right_mono)
    finally show ?thesis using e by simp
  qed
  show ?thesis
  proof (cases "pow2 ?k \<le> q")
    case True
    with upper ab show ?thesis by (simp add: floor_log2_def)
  next
    case False
    with lower ab show ?thesis by (simp add: floor_log2_def)
  qed
qed

lemma floor_log2_unique:
  assumes "pow2 k \<le> q" and "q < pow2 (k + 1)"
  shows "floor_log2 q = k"
proof -
  have q: "0 < q" using assms(1) pow2_pos [of k] by linarith
  from floor_log2_bounds [OF q] have l: "pow2 (floor_log2 q) \<le> q"
    and u: "q < pow2 (floor_log2 q + 1)" by simp_all
  have "\<not> floor_log2 q < k"
  proof
    assume "floor_log2 q < k"
    then have "pow2 (floor_log2 q + 1) \<le> pow2 k" by (simp add: pow2_mono)
    with u assms(1) show False by linarith
  qed
  moreover have "\<not> k < floor_log2 q"
  proof
    assume "k < floor_log2 q"
    then have "pow2 (k + 1) \<le> pow2 (floor_log2 q)" by (simp add: pow2_mono)
    with l assms(2) show False by linarith
  qed
  ultimately show ?thesis by linarith
qed

lemma round_half_even_near: "\<bar>of_int (round_half_even r) - r\<bar> \<le> 1 / 2"
proof -
  have "of_int \<lfloor>r\<rfloor> \<le> r" and "r < of_int \<lfloor>r\<rfloor> + 1" by linarith+
  then show ?thesis
    by (auto simp: round_half_even_def Let_def)
qed

lemma round_half_even_nearest:
  "\<bar>of_int (round_half_even r) - r\<bar> \<le> \<bar>of_int j - r\<bar>"
proof (cases "j = round_half_even r")
  case True
  then show ?thesis by simp
next
  case False
  then have "1 \<le> \<bar>j - round_half_even r\<bar>" by linarith
  then have "(1::rat) \<le> \<bar>of_int j - of_int (round_half_even r)\<bar>"
    by (metis of_int_1 of_int_abs of_int_diff of_int_le_iff)
  with round_half_even_near [of r] show ?thesis by linarith
qed

lemma round_half_even_mono_bound:
  assumes "0 \<le> r" and "r \<le> of_int n"
  shows "0 \<le> round_half_even r \<and> round_half_even r \<le> n"
proof -
  have f0: "0 \<le> \<lfloor>r\<rfloor>" using assms(1) by simp
  have fn: "\<lfloor>r\<rfloor> \<le> n" using assms(2) by (simp add: floor_le_iff) 
  show ?thesis
  proof (cases "\<lfloor>r\<rfloor> = n")
    case True
    then have "r = of_int n" using assms(2) of_int_floor_le [of r] by linarith
    then show ?thesis using f0 True by (simp add: round_half_even_def)
  next
    case False
    with fn have "\<lfloor>r\<rfloor> + 1 \<le> n" by linarith
    with f0 show ?thesis by (auto simp: round_half_even_def Let_def)
  qed
qed


lemma scaled_distance:
  fixes a b c d :: rat
  assumes "0 < c" and "\<bar>a - b\<bar> \<le> \<bar>d - b\<bar>"
  shows "\<bar>a * c - b * c\<bar> \<le> \<bar>d * c - b * c\<bar>"
proof -
  have "\<bar>a * c - b * c\<bar> = \<bar>a - b\<bar> * c" and "\<bar>d * c - b * c\<bar> = \<bar>d - b\<bar> * c"
    using assms(1) by (simp_all add: abs_mult flip: left_diff_distrib)
  with assms show ?thesis by (simp add: mult_right_mono)
qed

lemma pow2_1024: "pow2 1024 = 2 ^ 1024" and pow2_53: "pow2 53 = 2 ^ 53"
  and pow2_52: "pow2 52 = 2 ^ 52"
  by (simp_all only: pow2_def) simp_all

lemma round64_Fin:
  assumes q: "0 < q" and r: "round64 neg q = Fin s v"
  shows "s = neg \<and> nearest_binary64 q v"
proof -
  define L where "L = floor_log2 q"
  define e where "e = max (L - 52) (- 1074)"
  define m where "m = round_half_even (q / pow2 e)"
  from r q have small: "q < 2 ^ 1024"
    by (auto simp: round64_def split: if_splits)
  from r q small have v: "v = of_int m * pow2 e" and s: "s = neg"
    and vs: "v < 2 ^ 1024"
    by (auto simp: round64_def Let_def L_def e_def m_def split: if_splits)
  from floor_log2_bounds [OF q] have lq: "pow2 L \<le> q" and uq: "q < pow2 (L + 1)"
    by (simp_all add: L_def)
  have L: "L \<le> 1023"
  proof (rule ccontr)
    assume "\<not> L \<le> 1023"
    then have "pow2 1024 \<le> pow2 L" by (simp add: pow2_mono)
    with lq small show False by (simp add: pow2_1024)
  qed
  have e1: "- 1074 \<le> e" and e2: "L - 52 \<le> e" and e3: "e \<le> 971"
    using L by (simp_all add: e_def)
  have pe: "0 < pow2 e" by (rule pow2_pos)
  define rr where "rr = q / pow2 e"
  have rr0: "0 < rr" using q pe by (simp add: rr_def)
  have rrq: "rr * pow2 e = q" using pe by (simp add: rr_def)
  have "q < pow2 (53 + e)"
  proof -
    have "pow2 (L + 1) \<le> pow2 (53 + e)" using e2 by (simp add: pow2_mono)
    with uq show ?thesis by linarith
  qed
  then have "rr * pow2 e < pow2 53 * pow2 e" by (simp add: rrq pow2_add)
  then have "rr < pow2 53" using pe by simp
  then have "rr \<le> of_int (2 ^ 53)" by (simp add: pow2_53)
  with round_half_even_mono_bound [of rr "2 ^ 53"] rr0
  have m0: "0 \<le> m" and m53: "m \<le> 2 ^ 53" by (simp_all add: m_def rr_def)
  have repr: "binary64 v"
  proof (cases "m < 2 ^ 53")
    case True
    with v m0 e1 e3 show ?thesis unfolding binary64_def by blast
  next
    case False
    with m53 have m: "m = 2 ^ 53" by simp
    then have "v = pow2 53 * pow2 e" by (simp add: v pow2_53)
    then have v': "v = pow2 (53 + e)" by (simp add: pow2_add)
    have "e \<le> 970"
    proof (rule ccontr)
      assume "\<not> e \<le> 970"
      then have "pow2 1024 \<le> pow2 (53 + e)" by (simp add: pow2_mono)
      with vs v' show False by (simp add: pow2_1024)
    qed
    moreover have "v = of_int (2 ^ 52) * pow2 (e + 1)"
    proof -
      have "53 + e = 52 + (e + 1)" by simp
      then have "pow2 (53 + e) = pow2 52 * pow2 (e + 1)" by (simp only: pow2_add)
      with v' show ?thesis by (simp add: pow2_52)
    qed
    moreover have "(0::int) \<le> 2 ^ 52" and "(2::int) ^ 52 < 2 ^ 53" by simp_all
    ultimately show ?thesis using e1 unfolding binary64_def
      by (intro exI [of _ "2 ^ 52"] exI [of _ "e + 1"]) simp
  qed
  have grid: "\<bar>v - q\<bar> \<le> \<bar>of_int j * pow2 e - q\<bar>" for j
  proof -
    have "\<bar>of_int m - rr\<bar> \<le> \<bar>of_int j - rr\<bar>"
      unfolding m_def rr_def by (rule round_half_even_nearest)
    from scaled_distance [OF pe this] show ?thesis by (simp add: rrq v)
  qed
  have near: "\<bar>v - q\<bar> \<le> \<bar>w - q\<bar>" if w: "binary64 w" for w
  proof -
    from w obtain m' e' where w': "w = of_int m' * pow2 e'" and m'0: "0 \<le> m'"
      and m'53: "m' < 2 ^ 53" and e'1: "- 1074 \<le> e'" and e'3: "e' \<le> 971"
      unfolding binary64_def by blast
    show ?thesis
    proof (cases "e \<le> e'")
      case True
      define n where "n = nat (e' - e)"
      with True have "e' = int n + e" by simp
      then have "pow2 e' = pow2 (int n) * pow2 e" by (simp only: pow2_add)
      then have "pow2 e' = 2 ^ n * pow2 e" by (simp only: pow2_nat)
      then have "w = of_int (m' * 2 ^ n) * pow2 e"
        by (simp add: w')
      with grid [of "m' * 2 ^ n"] show ?thesis by simp
    next
      case False
      then have lt: "e' < e" by simp
      with e'1 have eL: "e = L - 52" by (simp add: e_def)
      have "of_int m' < (2::rat) ^ 53"
        using m'53 by (metis of_int_less_iff of_int_numeral of_int_power)
      then have "w < pow2 53 * pow2 e'"
        using pow2_pos [of e'] by (simp add: w' pow2_53)
      also have "\<dots> = pow2 (53 + e')" by (simp add: pow2_add)
      also have "\<dots> \<le> pow2 L" using lt eL by (simp add: pow2_mono)
      finally have wL: "w < pow2 L" .
      have "L = 52 + e" using eL by simp
      then have "pow2 L = pow2 52 * pow2 e" by (simp only: pow2_add)
      then have "pow2 L = of_int (2 ^ 52) * pow2 e" by (simp add: pow2_52)
      with grid [of "2 ^ 52"] have "\<bar>v - q\<bar> \<le> \<bar>pow2 L - q\<bar>" by simp
      with lq wL show ?thesis by linarith
    qed
  qed
  from repr near s show ?thesis unfolding nearest_binary64_def by blast
qed

lemma round64_Inf:
  assumes q: "0 < q" and r: "round64 neg q = Inf s"
  shows "s = neg \<and> 2 ^ 1024 - 2 ^ 970 \<le> q"
proof (cases "2 ^ 1024 \<le> q")
  case True
  with r q show ?thesis by (auto simp: round64_def split: if_splits)
next
  case False
  then have small: "q < 2 ^ 1024" by simp
  define L where "L = floor_log2 q"
  define e where "e = max (L - 52) (- 1074)"
  define m where "m = round_half_even (q / pow2 e)"
  from r q small have s: "s = neg" and big: "2 ^ 1024 \<le> of_int m * pow2 e"
    by (auto simp: round64_def Let_def L_def e_def m_def split: if_splits)
  from floor_log2_bounds [OF q] have lq: "pow2 L \<le> q" and uq: "q < pow2 (L + 1)"
    by (simp_all add: L_def)
  have L: "L \<le> 1023"
  proof (rule ccontr)
    assume "\<not> L \<le> 1023"
    then have "pow2 1024 \<le> pow2 L" by (simp add: pow2_mono)
    with lq small show False by (simp add: pow2_1024)
  qed
  have e3: "e \<le> 971" using L by (simp add: e_def)
  have pe: "0 < pow2 e" by (rule pow2_pos)
  have "pow2 e \<le> pow2 971" using e3 by (rule pow2_mono)
  then have pe971: "pow2 e \<le> 2 ^ 971" by (simp add: pow2_def)
  have near: "\<bar>of_int m - q / pow2 e\<bar> \<le> 1 / 2"
    unfolding m_def by (rule round_half_even_near)
  then have "of_int m - 1 / 2 \<le> q / pow2 e" by linarith
  then have "(of_int m - 1 / 2) * pow2 e \<le> q"
    using pe by (simp add: pos_le_divide_eq)
  then have "of_int m * pow2 e - pow2 e / 2 \<le> q" by (simp add: left_diff_distrib)
  with big pe971 have "2 ^ 1024 - 2 ^ 971 / 2 \<le> q" by linarith
  then show ?thesis using s by simp
qed

lemma round64_not_NaN: "round64 neg q \<noteq> NaN"
  by (simp add: round64_def Let_def)

text \<open>
  Division of a finite Number by a positive finite one is the exact quotient, rounded:
  a binary64 magnitude nearest to it, or an infinity when the quotient is out of range.
\<close>

lemma nearest_binary64_0: "nearest_binary64 0 0"
proof -
  have "(0::rat) = of_int 0 * pow2 0" by simp
  then have "binary64 0" unfolding binary64_def by (intro exI [of _ 0]) simp
  then show ?thesis by (simp add: nearest_binary64_def)
qed

lemma js_div_nearest:
  assumes "0 \<le> c" and "0 < a"
  shows "(\<exists>v. js_div (Fin s c) (Fin False a) = Fin s v \<and> nearest_binary64 (c / a) v) \<or>
         (js_div (Fin s c) (Fin False a) = Inf s \<and> 2 ^ 1024 - 2 ^ 970 \<le> c / a)"
proof (cases "c = 0")
  case True
  then show ?thesis using assms(2) by (simp add: round64_def nearest_binary64_0)
next
  case False
  with assms have q: "0 < c / a" by simp
  have d: "js_div (Fin s c) (Fin False a) = round64 s (c / a)" using assms(2) by simp
  show ?thesis
  proof (cases "round64 s (c / a)")
    case NaN
    then show ?thesis by (simp add: round64_not_NaN)
  next
    case (Inf s')
    from round64_Inf [OF q this] Inf d show ?thesis by simp
  next
    case (Fin s' v)
    from round64_Fin [OF q this] Fin d show ?thesis by simp
  qed
qed

text \<open>Evaluation at the sample values.\<close>

lemma floor_rat_numeral:
  "\<lfloor>(numeral a :: rat) / numeral b\<rfloor> = numeral a div numeral b"
  by (metis floor_divide_of_int_eq of_int_numeral)

lemma bitlen_values: "bitlen 1 = 1" "bitlen 2 = 2" "bitlen 5 = 3" "bitlen 10 = 4"
  by (simp_all add: bitlen.simps)

lemma floor_log2_10: "floor_log2 10 = 3"
  by (simp add: floor_log2_def bitlen_values pow2_def)

lemma round64_10: "round64 False 10 = Fin False 10"
  by (simp add: round64_def floor_log2_10 pow2_def round_half_even_def Let_def)

lemma str_unsigned_decimal_10: "str_unsigned_decimal ''10'' = Some (Finite 10)"
  by (simp add: str_unsigned_decimal_def is_digit_def digits_value_def digit_value_def
      exponent_part_def scale10_def Let_def)

lemma parseFloat_10: "parseFloat ''10'' = Fin False 10"
  by (simp add: parseFloat_def is_ws_def str_unsigned_decimal_10 round64_10)

lemma str_unsigned_decimal_1e309: "str_unsigned_decimal ''1e309'' = Some (Finite (10 ^ 309))"
  by (simp add: str_unsigned_decimal_def is_digit_def digits_value_def digit_value_def
      exponent_part_def scale10_def Let_def)

lemma round64_overflow: "2 ^ 1024 \<le> q \<Longrightarrow> round64 neg q = Inf neg"
proof -
  assume big: "2 ^ 1024 \<le> q"
  have "(0::rat) < 2 ^ 1024" by simp
  with big have "q \<noteq> 0" by linarith
  with big show ?thesis by (simp add: round64_def)
qed

lemma parseFloat_1e309: "parseFloat ''1e309'' = Inf False"
proof -
  have "(2::rat) ^ 1024 \<le> 10 ^ 309" by simp
  then have "round64 False (10 ^ 309) = Inf False" by (rule round64_overflow)
  then show ?thesis
    by (simp add: parseFloat_def is_ws_def str_unsigned_decimal_1e309)
qed

lemma round64_eval:
  assumes "pow2 k \<le> q" and "q < pow2 (k + 1)" and "q < 2 ^ 1024"
    and "of_int (round_half_even (q / pow2 (max (k - 52) (- 1074)))) *
           pow2 (max (k - 52) (- 1074)) = v"
    and "v < 2 ^ 1024"
  shows "round64 neg q = Fin neg v"
proof -
  have "0 < q" using assms(1) pow2_pos [of k] by linarith
  moreover have "floor_log2 q = k" using assms(1,2) by (rule floor_log2_unique)
  ultimately show ?thesis using assms(3,4,5) by (simp add: round64_def Let_def)
qed

lemma round64_100: "round64 False 100 = Fin False 100"
  by (rule round64_eval [where k = 6]) (simp_all add: pow2_def round_half_even_def Let_def)

lemma str_unsigned_decimal_100: "str_unsigned_decimal ''100'' = Some (Finite 100)"
  by (simp add: str_unsigned_decimal_def is_digit_def digits_value_def digit_value_def
      exponent_part_def scale10_def Let_def)

lemma parseFloat_100: "parseFloat ''100'' = Fin False 100"
  by (simp add: parseFloat_def is_ws_def str_unsigned_decimal_100 round64_100)

lemma round64_quote:
  "round64 False (3242239887985869 / 3518437208883200) =
     Fin False (8300134113243825 / 9007199254740992)"
  by (rule round64_eval [where k = "- 1"])
    (simp_all add: pow2_def round_half_even_def Let_def floor_rat_numeral)

lemma round64_0_92:
  "round64 False (23 / 25) = Fin False (8286623314361713 / 9007199254740992)"
  by (rule round64_eval [where k = "- 1"])
    (simp_all add: pow2_def round_half_even_def Let_def floor_rat_numeral)

lemma str_unsigned_decimal_0_92: "str_unsigned_decimal ''0.92'' = Some (Finite (23 / 25))"
  by (simp add: str_unsigned_decimal_def is_digit_def digits_value_def digit_value_def
      exponent_part_def scale10_def Let_def)

lemma parseFloat_0_92:
  "parseFloat ''0.92'' = Fin False (8286623314361713 / 9007199254740992)"
  by (simp add: parseFloat_def is_ws_def str_unsigned_decimal_0_92 round64_0_92)

lemma parseFloat_abc: "parseFloat ''abc'' = NaN"
  by (simp add: parseFloat_def is_ws_def str_unsigned_decimal_def is_digit_def Let_def)

lemma quotient_of_5_2: "quotient_of (5 / 2) = (5, 2)"
proof -
  have "quotient_of (Fract 5 2) = (5, 2)"
    by (simp add: quotient_of_Fract)
  then show ?thesis by (simp add: Fract_of_int_quotient)
qed

lemma floor_log2_5_2: "floor_log2 (5 / 2) = 1"
  by (simp add: floor_log2_def quotient_of_5_2 bitlen_values pow2_def)

lemma round64_5_2: "round64 False (5 / 2) = Fin False (5 / 2)"
  by (simp add: round64_def floor_log2_5_2 pow2_def round_half_even_def Let_def)

lemma js_div_25_10: "js_div (Fin False 25) (Fin False 10) = Fin False (5 / 2)"
  using round64_5_2 by simp

lemma digits_of_digit: "n < 10 \<Longrightarrow> digits_of n = [''0123456789'' ! nat n]"
  by (subst digits_of.simps) simp

lemma digits_of_more:
  "10 \<le> n \<Longrightarrow> digits_of n = digits_of (n div 10) @ [''0123456789'' ! nat (n mod 10)]"
  by (subst digits_of.simps) simp

lemma toFixed2_values:
  "toFixed2 rt (Fin False 1) = ''1.00''"
  "toFixed2 rt (Fin False 5) = ''5.00''"
  "toFixed2 rt (Fin False 10) = ''10.00''"
  "toFixed2 rt (Fin False 25) = ''25.00''"
  "toFixed2 rt (Fin False (5 / 2)) = ''2.50''"
  by (simp_all add: toFixed2_def value_of_def digits_of_digit digits_of_more
      floor_rat_numeral)

lemma num_to_string_10: "digits_of 10 = ''10''"
  by (simp add: digits_of_digit digits_of_more)

lemma gt0_iff: "gt0 x \<longleftrightarrow> x \<noteq> NaN \<and> \<not> le0 x"
  by (cases x) auto

lemma gate_iff: "(\<not> truthy x \<or> le0 x) \<longleftrightarrow> \<not> gt0 x"
  by (cases x) (auto simp: value_of_def)

lemma gt0_truthy: "gt0 x \<Longrightarrow> truthy x"
  by (cases x) (auto simp: value_of_def split: if_splits)

lemma gt0_not_le0: "gt0 x \<Longrightarrow> \<not> le0 x"
  by (cases x) (auto simp: value_of_def split: if_splits)

lemma sample_form_fields:
  "sel_value (fromCurrency (sample_form f t a lc)) = f"
  "sel_value (toCurrency (sample_form f t a lc)) = t"
  "amountInput (sample_form f t a lc) = a"
  "lastConversion (sample_form f t a lc) = lc"
  "requests (sample_form f t a lc) = []"
  "currencies (sample_form f t a lc) = [(''USD'', ''US Dollar''), (''EUR'', ''Euro'')]"
  by (simp_all add: sample_form_def)

subsection \<open>Formatting and display\<close>

lemma formatCurrency_Number: "\<exists>out. formatCurrency rt (Number x) code = Inr out"
  by (simp add: formatCurrency_def split: option.split)

lemma formatCurrency_sample:
  "formatCurrency sample_runtime (Number x) code = Inr (code @ '' '' @ toFixed2 sample_runtime x)"
  by (simp add: formatCurrency_def sample_runtime_def)

lemma displayResult_Number:
  assumes "formatCurrency rt (Number c) t = Inr fa"
    and "formatCurrency rt (Number r) t = Inr fr"
  shows "displayResult rt (Number c) f t r orig st =
     Inr (st\<lparr>resultsContent :=
            ResultView fa
              (num_to_string rt
                 (case orig of
                    Some a \<Rightarrow> if truthy a then a else parseFloat (amountInput st)
                  | None \<Rightarrow> parseFloat (amountInput st)))
              f fr (name_or_code rt (currencies st) t)\<rparr>)"
  using assms by (simp add: displayResult_def)

lemma displayResult_frame:
  assumes "displayResult rt v f t r orig st = Inr st'"
  shows "\<exists>view. st' = st\<lparr>resultsContent := view\<rparr>"
  using assms by (auto simp: displayResult_def Let_def split: sum.splits)

lemma validateForm_frame:
  "requests (validateForm st) = requests st"
  "lastConversion (validateForm st) = lastConversion st"
  "resultsContent (validateForm st) = resultsContent st"
  "fromCurrency (validateForm st) = fromCurrency st"
  "toCurrency (validateForm st) = toCurrency st"
  by (simp_all add: validateForm_def)

subsection \<open>The \<open>en-US\<close> runtime and substrings\<close>

lemma group_thousands_short: "length ds \<le> 3 \<Longrightarrow> group_thousands ds = ds"
  by (subst group_thousands.simps) simp

lemma en_US_number_values:
  "en_US_number 5 = ''5.00''"
  "en_US_number (3242239887985869 / 35184372088832) = ''92.15''"
  "en_US_number (8300134113243825 / 9007199254740992) = ''0.92''"
  by (simp_all add: en_US_number_def Let_def floor_rat_numeral digits_of_digit digits_of_more
      group_thousands_short)

lemma well_formed_samples:
  "well_formed_currency_code ''EUR''" "well_formed_currency_code ''USD''"
  "well_formed_currency_code ''XXX''" "\<not> well_formed_currency_code ''XX''"
  by (simp_all add: well_formed_currency_code_def is_ascii_letter_def)

lemma formatCurrency_en_US:
  "formatCurrency en_US (Number (Fin False q)) ''EUR'' = Inr (euro_sign @ en_US_number q)"
  "formatCurrency en_US (Number (Fin False q)) ''XXX'' =
     Inr (generic_currency_sign @ en_US_number q)"
  "formatCurrency en_US (Number x) ''XX'' = Inr (''XX '' @ toFixed2 en_US x)"
  "formatCurrency en_US Undefined ''XX'' = Inl TypeError"
  by (simp_all add: formatCurrency_def en_US_def well_formed_samples ascii_upper_def
      en_US_currency_def en_US_symbol_def)

lemma contains_nil: "contains xs []"
  by (cases xs) simp_all

lemma contains_prefix: "contains (a @ b) a"
  by (cases a) (simp_all add: contains_nil)

lemma contains_suffix: "contains (a @ b) b"
  by (induction a) (simp_all add: contains_prefix [of b "[]", simplified])

subsection \<open>The three paths of \<open>performConversion\<close>\<close>

lemma performConversion_gate_error:
  assumes "\<not> (sel_value (fromCurrency st) \<noteq> [] \<and> sel_value (toCurrency st) \<noteq> [] \<and>
              gt0 (parseFloat (amountInput st)))"
  shows "performConversion rt svc st =
           Inr (showError ''Please fill in all fields with valid values.'' st)"
  using assms gate_iff [of "parseFloat (amountInput st)"]
  by (auto simp: performConversion_def Let_def)

lemma performConversion_identity:
  assumes "sel_value (fromCurrency st) \<noteq> []"
    and "sel_value (toCurrency st) = sel_value (fromCurrency st)"
    and "gt0 (parseFloat (amountInput st))"
  shows "performConversion rt svc st =
           displayResult rt (Number (parseFloat (amountInput st)))
             (sel_value (fromCurrency st)) (sel_value (fromCurrency st)) (Fin False 1) None st"
  using assms by (simp add: performConversion_def Let_def gt0_truthy gt0_not_le0)

lemma performConversion_identity_view:
  assumes "sel_value (fromCurrency st) \<noteq> []"
    and "sel_value (toCurrency st) = sel_value (fromCurrency st)"
    and "gt0 (parseFloat (amountInput st))"
  shows "\<exists>view. performConversion rt svc st = Inr (st\<lparr>resultsContent := view\<rparr>)"
proof -
  let ?A = "sel_value (fromCurrency st)" and ?a = "parseFloat (amountInput st)"
  obtain amountText where fa: "formatCurrency rt (Number ?a) ?A = Inr amountText"
    using formatCurrency_Number by blast
  obtain rateText where fr: "formatCurrency rt (Number (Fin False 1)) ?A = Inr rateText"
    using formatCurrency_Number by blast
  have "performConversion rt svc st =
      Inr (st\<lparr>resultsContent :=
             ResultView amountText (num_to_string rt ?a) ?A rateText
               (name_or_code rt (currencies st) ?A)\<rparr>)"
    by (simp add: performConversion_identity [OF assms] displayResult_Number [OF fa fr])
  then show ?thesis ..
qed

lemma performConversion_network:
  assumes "sel_value (fromCurrency st) \<noteq> []" and "sel_value (toCurrency st) \<noteq> []"
    and "gt0 (parseFloat (amountInput st))"
    and "sel_value (fromCurrency st) \<noteq> sel_value (toCurrency st)"
  shows "performConversion rt svc st =
     Inr (validateForm
       (case convert_try rt
               (get_latest svc (latest_url rt (parseFloat (amountInput st))
                  (sel_value (fromCurrency st)) (sel_value (toCurrency st))))
               (sel_value (fromCurrency st)) (sel_value (toCurrency st))
               (parseFloat (amountInput st))
               (st\<lparr>resultsContent := LoadingView ''Converting...'',
                    convertBtn_disabled := True,
                    requests := requests st @
                      [latest_url rt (parseFloat (amountInput st))
                         (sel_value (fromCurrency st)) (sel_value (toCurrency st))]\<rparr>) of
          Inr st' \<Rightarrow> st'
        | Inl error \<Rightarrow>
            showError ''Failed to convert currency. Please try again.''
              (st\<lparr>resultsContent := LoadingView ''Converting...'',
                   convertBtn_disabled := True,
                   requests := requests st @
                      [latest_url rt (parseFloat (amountInput st))
                         (sel_value (fromCurrency st)) (sel_value (toCurrency st))],
                   console := console st @ [error]\<rparr>)))"
  using assms
  by (simp add: performConversion_def Let_def gt0_truthy gt0_not_le0 showLoading_def
      hideLoading_def cong: sum.case_cong)

lemma convert_try_failed: "failed resp \<Longrightarrow> \<exists>e. convert_try rt resp f t a st = Inl e"
  by (cases resp) (auto simp: convert_try_def)

lemma convert_try_frame:
  assumes "convert_try rt resp f t a st = Inr st'"
  shows "\<exists>view lc. st' = st\<lparr>resultsContent := view, lastConversion := lc\<rparr>"
proof -
  from assms obtain v r s where d: "displayResult rt v f t r (Some a) st = Inr s"
    and st': "st' = s\<lparr>lastConversion :=
        Some \<lparr>conv_fromCurrency = f, conv_toCurrency = t, conv_amount = a, conv_rate = r\<rparr>\<rparr>"
    by (auto simp: convert_try_def Let_def split: fetched.splits option.splits sum.splits
        if_splits)
  from displayResult_frame [OF d] obtain view where "s = st\<lparr>resultsContent := view\<rparr>" ..
  with st' show ?thesis by blast
qed

lemma performConversion_caught:
  assumes "sel_value (fromCurrency st) \<noteq> []" and "sel_value (toCurrency st) \<noteq> []"
    and "gt0 (parseFloat (amountInput st))"
    and "sel_value (fromCurrency st) \<noteq> sel_value (toCurrency st)"
    and "convert_try rt
           (get_latest svc (latest_url rt (parseFloat (amountInput st))
              (sel_value (fromCurrency st)) (sel_value (toCurrency st))))
           (sel_value (fromCurrency st)) (sel_value (toCurrency st))
           (parseFloat (amountInput st))
           (st\<lparr>resultsContent := LoadingView ''Converting...'',
                convertBtn_disabled := True,
                requests := requests st @
                  [latest_url rt (parseFloat (amountInput st))
                     (sel_value (fromCurrency st)) (sel_value (toCurrency st))]\<rparr>) = Inl e"
  shows "\<exists>st'. performConversion rt svc st = Inr st' \<and>
           resultsContent st' = ErrorView ''Failed to convert currency. Please try again.'' \<and>
           lastConversion st' = lastConversion st"
  using assms(5)
  by (simp add: performConversion_network [OF assms(1-4)] validateForm_frame showError_def)

text \<open>The path of a successful response, and the request every networked run makes.\<close>

lemma performConversion_success:
  assumes "sel_value (fromCurrency st) \<noteq> []" and "sel_value (toCurrency st) \<noteq> []"
    and "gt0 (parseFloat (amountInput st))"
    and "sel_value (fromCurrency st) \<noteq> sel_value (toCurrency st)"
    and "get_latest svc (latest_url rt (parseFloat (amountInput st))
           (sel_value (fromCurrency st)) (sel_value (toCurrency st)))
         = Response True status (Some (Some rates))"
    and "rates (sel_value (toCurrency st)) = Number c"
    and "formatCurrency rt (Number c) (sel_value (toCurrency st)) = Inr fa"
    and "formatCurrency rt (Number (js_div c (parseFloat (amountInput st))))
           (sel_value (toCurrency st)) = Inr fr"
  shows "performConversion rt svc st =
     Inr (validateForm
       (st\<lparr>convertBtn_disabled := True,
           requests := requests st @
             [latest_url rt (parseFloat (amountInput st))
                (sel_value (fromCurrency st)) (sel_value (toCurrency st))],
           resultsContent :=
             ResultView fa (num_to_string rt (parseFloat (amountInput st)))
               (sel_value (fromCurrency st)) fr
               (name_or_code rt (currencies st) (sel_value (toCurrency st))),
           lastConversion :=
             Some \<lparr>conv_fromCurrency = sel_value (fromCurrency st),
                   conv_toCurrency = sel_value (toCurrency st),
                   conv_amount = parseFloat (amountInput st),
                   conv_rate = js_div c (parseFloat (amountInput st))\<rparr>\<rparr>))"
proof -
  let ?f = "sel_value (fromCurrency st)" and ?t = "sel_value (toCurrency st)"
  let ?a = "parseFloat (amountInput st)"
  have tr: "truthy ?a" using assms(3) by (rule gt0_truthy)
  have "\<And>s. convert_try rt (Response True status (Some (Some rates))) ?f ?t ?a s =
      Inr (s\<lparr>resultsContent :=
               ResultView fa (num_to_string rt ?a) ?f fr (name_or_code rt (currencies s) ?t),
             lastConversion :=
               Some \<lparr>conv_fromCurrency = ?f, conv_toCurrency = ?t, conv_amount = ?a,
                     conv_rate = js_div c ?a\<rparr>\<rparr>)"
    using displayResult_Number [OF assms(7,8)] tr assms(6)
    by (simp add: convert_try_def Let_def)
  then show ?thesis
    using assms(5) by (simp add: performConversion_network [OF assms(1-4)])
qed

lemma performConversion_fetches:
  assumes "sel_value (fromCurrency st) \<noteq> []" and "sel_value (toCurrency st) \<noteq> []"
    and "gt0 (parseFloat (amountInput st))"
    and "sel_value (fromCurrency st) \<noteq> sel_value (toCurrency st)"
    and "performConversion rt svc st = Inr st'"
  shows "requests st' = requests st @
     [latest_url rt (parseFloat (amountInput st))
        (sel_value (fromCurrency st)) (sel_value (toCurrency st))]"
proof -
  let ?url = "latest_url rt (parseFloat (amountInput st))
      (sel_value (fromCurrency st)) (sel_value (toCurrency st))"
  let ?st2 = "st\<lparr>resultsContent := LoadingView ''Converting...'',
      convertBtn_disabled := True, requests := requests st @ [?url]\<rparr>"
  let ?ct = "convert_try rt (get_latest svc ?url) (sel_value (fromCurrency st))
      (sel_value (toCurrency st)) (parseFloat (amountInput st)) ?st2"
  let ?st3 = "case ?ct of
          Inr s \<Rightarrow> s
        | Inl error \<Rightarrow>
            showError ''Failed to convert currency. Please try again.''
              (st\<lparr>resultsContent := LoadingView ''Converting...'',
                   convertBtn_disabled := True, requests := requests st @ [?url],
                   console := console st @ [error]\<rparr>)"
  have "requests ?st3 = requests st @ [?url]"
  proof (cases ?ct)
    case (Inl e)
    then show ?thesis by (simp add: showError_def)
  next
    case (Inr s)
    from convert_try_frame [OF this] obtain view lc where
      "s = ?st2\<lparr>resultsContent := view, lastConversion := lc\<rparr>" by blast
    with Inr show ?thesis by simp
  qed
  moreover have "st' = validateForm ?st3"
    using assms(5) by (simp add: performConversion_network [OF assms(1-4)])
  ultimately show ?thesis by (simp add: validateForm_frame)
qed

text \<open>
  Whatever the path, \<open>performConversion\<close> returns, leaves the selectors and the amount
  field alone, and fetches at most the one URL of the request, only behind the gate.
\<close>

lemma performConversion_returns:
  "\<exists>st'. performConversion rt svc st = Inr st' \<and>
     fromCurrency st' = fromCurrency st \<and> toCurrency st' = toCurrency st \<and>
     amountInput st' = amountInput st \<and>
     (requests st' = requests st \<or>
      sel_value (fromCurrency st) \<noteq> [] \<and> sel_value (toCurrency st) \<noteq> [] \<and>
      gt0 (parseFloat (amountInput st)) \<and>
      sel_value (fromCurrency st) \<noteq> sel_value (toCurrency st) \<and>
      requests st' = requests st @
        [latest_url rt (parseFloat (amountInput st))
           (sel_value (fromCurrency st)) (sel_value (toCurrency st))])"
proof (cases "sel_value (fromCurrency st) \<noteq> [] \<and> sel_value (toCurrency st) \<noteq> [] \<and>
        gt0 (parseFloat (amountInput st))")
  case False
  then show ?thesis
    by (simp add: performConversion_gate_error showError_def)
next
  case gate: True
  show ?thesis
  proof (cases "sel_value (fromCurrency st) = sel_value (toCurrency st)")
    case True
    with gate have "\<exists>view. performConversion rt svc st = Inr (st\<lparr>resultsContent := view\<rparr>)"
      by (simp add: performConversion_identity_view)
    then obtain view where "performConversion rt svc st = Inr (st\<lparr>resultsContent := view\<rparr>)" ..
    then show ?thesis by simp
  next
    case False
    let ?url = "latest_url rt (parseFloat (amountInput st))
        (sel_value (fromCurrency st)) (sel_value (toCurrency st))"
    let ?st2 = "st\<lparr>resultsContent := LoadingView ''Converting...'',
        convertBtn_disabled := True, requests := requests st @ [?url]\<rparr>"
    let ?ct = "convert_try rt (get_latest svc ?url) (sel_value (fromCurrency st))
        (sel_value (toCurrency st)) (parseFloat (amountInput st)) ?st2"
    let ?st3 = "case ?ct of
            Inr st' \<Rightarrow> st'
          | Inl error \<Rightarrow>
              showError ''Failed to convert currency. Please try again.''
                (st\<lparr>resultsContent := LoadingView ''Converting...'',
                     convertBtn_disabled := True, requests := requests st @ [?url],
                     console := console st @ [error]\<rparr>)"
    have "requests ?st3 = requests st @ [?url] \<and> fromCurrency ?st3 = fromCurrency st \<and>
        toCurrency ?st3 = toCurrency st \<and> amountInput ?st3 = amountInput st"
    proof (cases ?ct)
      case (Inl e)
      then show ?thesis by (simp add: showError_def)
    next
      case (Inr s)
      from convert_try_frame [OF this] obtain view lc where
        "s = ?st2\<lparr>resultsContent := view, lastConversion := lc\<rparr>" by blast
      with Inr show ?thesis by simp
    qed
    with gate False show ?thesis
      by (simp add: performConversion_network validateForm_frame validateForm_def)
  qed
qed

subsection \<open>Loading the catalog\<close>

text \<open>
  After \<open>populateCurrencyDropdowns\<close> the two selectors are alike, so each offers whatever
  the other has selected. On the blank page, the catalog of US dollar and euro gives the
  options sorted by code and the defaults USD and EUR; the button stays disabled, the
  amount field being empty.
\<close>

lemma append_both_alike:
  "fromCurrency s = toCurrency s \<Longrightarrow>
   fromCurrency (foldl (\<lambda>s (code, name).
       s\<lparr>fromCurrency := appendChild (new_Option (code @ '' - '' @ name) code) (fromCurrency s),
         toCurrency := appendChild (new_Option (code @ '' - '' @ name) code) (toCurrency s)\<rparr>)
     s xs) =
   toCurrency (foldl (\<lambda>s (code, name).
       s\<lparr>fromCurrency := appendChild (new_Option (code @ '' - '' @ name) code) (fromCurrency s),
         toCurrency := appendChild (new_Option (code @ '' - '' @ name) code) (toCurrency s)\<rparr>)
     s xs)"
  by (induction xs arbitrary: s) (auto simp: split_def)

lemma populateCurrencyDropdowns_alike:
  "fromCurrency (populateCurrencyDropdowns rt st) = toCurrency (populateCurrencyDropdowns rt st)"
  unfolding populateCurrencyDropdowns_def Let_def
  by (rule append_both_alike) simp

lemma load_try_alike:
  assumes "load_try rt (Response True status (Some cs)) st = Inr st'"
  shows "sel_options (fromCurrency st') = sel_options (toCurrency st')"
proof -
  let ?p = "populateCurrencyDropdowns rt (st\<lparr>currencies := cs\<rparr>)"
  have "fromCurrency ?p = toCurrency ?p" by (rule populateCurrencyDropdowns_alike)
  moreover have "st' = setDefaultCurrencies ?p"
    using assms by (simp add: load_try_def hideLoading_def)
  ultimately show ?thesis
    by (simp add: setDefaultCurrencies_def Let_def validateForm_def set_value_def)
qed

lemma loadCurrencies_sample:
  "loadCurrencies sample_runtime rates_service blank_page =
     Inr ((sample_form ''USD'' ''EUR'' [] None)
            \<lparr>convertBtn_disabled := True,
              resultsContent := LoadingView ''Loading currencies...'',
              requests := [''https://api.frankfurter.app/currencies'']\<rparr>)"
  by (simp add: loadCurrencies_def load_try_def rates_service_def blank_page_def
      showLoading_def hideLoading_def setDefaultCurrencies_def populateCurrencyDropdowns_def
      sort_entries_def sample_runtime_def placeholder_def appendChild_def new_Option_def
      set_value_def has_name_def validateForm_def sample_form_def sample_options_def
      apiBaseUrl_def Let_def)

subsection \<open>Identity conversion\<close>

text \<open>
  C1. With the same non-empty code \<open>A\<close> selected on both sides and an amount field that
  parses to \<open>a > 0\<close>, \<open>performConversion\<close> returns normally; the only field it changes is
  the results region, which shows the amount \<open>a\<close> and the rate 1, each formatted for \<open>A\<close>;
  the list of requests is as before, so the rate service is not called.
\<close>

theorem identity_conversion:
  assumes "sel_value (fromCurrency st) = A" and "sel_value (toCurrency st) = A"
    and "A \<noteq> []" and "parseFloat (amountInput st) = a" and "gt0 a"
  shows "\<exists>st' amountText rateText.
           performConversion rt svc st = Inr st' \<and>
           formatCurrency rt (Number a) A = Inr amountText \<and>
           formatCurrency rt (Number (Fin False 1)) A = Inr rateText \<and>
           st' = st\<lparr>resultsContent :=
                     ResultView amountText (num_to_string rt a) A rateText
                       (name_or_code rt (currencies st) A)\<rparr> \<and>
           requests st' = requests st"
proof -
  obtain amountText where fa: "formatCurrency rt (Number a) A = Inr amountText"
    using formatCurrency_Number by blast
  obtain rateText where fr: "formatCurrency rt (Number (Fin False 1)) A = Inr rateText"
    using formatCurrency_Number by blast
  have "performConversion rt svc st =
      displayResult rt (Number a) A A (Fin False 1) None st"
    using assms performConversion_identity [of st rt svc] by simp
  also have "\<dots> = Inr (st\<lparr>resultsContent :=
      ResultView amountText (num_to_string rt a) A rateText
        (name_or_code rt (currencies st) A)\<rparr>)"
    using displayResult_Number [OF fa fr, of A None st] assms(4) by simp
  finally show ?thesis using fa fr by simp
qed

theorem identity_conversion_witness:
  "gt0 (parseFloat (amountInput (sample_form ''EUR'' ''EUR'' ''10'' None))) \<and>
   performConversion sample_runtime rates_service (sample_form ''EUR'' ''EUR'' ''10'' None) =
     Inr ((sample_form ''EUR'' ''EUR'' ''10'' None)
            \<lparr>resultsContent := ResultView ''EUR 10.00'' ''10'' ''EUR'' ''EUR 1.00'' ''Euro''\<rparr>)"
proof -
  let ?st = "sample_form ''EUR'' ''EUR'' ''10'' None"
  have h1: "sel_value (fromCurrency ?st) = ''EUR''"
    and h2: "sel_value (toCurrency ?st) = ''EUR''"
    and h3: "''EUR'' \<noteq> []"
    and h4: "parseFloat (amountInput ?st) = Fin False 10"
    and h5: "gt0 (Fin False 10)"
    by (simp_all add: sample_form_fields parseFloat_10 value_of_def)
  from identity_conversion [OF h1 h2 h3 h4 h5, of sample_runtime rates_service]
  obtain st' amountText rateText where
    run: "performConversion sample_runtime rates_service ?st = Inr st'"
    and fa: "formatCurrency sample_runtime (Number (Fin False 10)) ''EUR'' = Inr amountText"
    and fr: "formatCurrency sample_runtime (Number (Fin False 1)) ''EUR'' = Inr rateText"
    and st': "st' = ?st\<lparr>resultsContent :=
        ResultView amountText (num_to_string sample_runtime (Fin False 10)) ''EUR'' rateText
          (name_or_code sample_runtime (currencies ?st) ''EUR'')\<rparr>"
    by blast
  from fa have "amountText = ''EUR 10.00''"
    by (simp add: formatCurrency_sample toFixed2_values)
  moreover from fr have "rateText = ''EUR 1.00''"
    by (simp add: formatCurrency_sample toFixed2_values)
  moreover have "num_to_string sample_runtime (Fin False 10) = ''10''"
    by (simp add: num_to_string_10)
  moreover have "name_or_code sample_runtime (currencies ?st) ''EUR'' = ''Euro''"
    by (simp add: name_or_code_def sample_form_fields)
  ultimately show ?thesis using run st' h4 h5 by simp
qed

subsection \<open>The rate of a conversion\<close>

text \<open>
  C2, as the code has it. When the gate is passed, the two codes differ and the service
  answers with a success status and a \<open>rates\<close> object holding the Number
  \<open>convertedAmount\<close> under the target code, \<open>performConversion\<close> stores as rate the
  quotient \<open>convertedAmount / amount\<close> of Number division, with the operands as the service
  and \<open>parseFloat\<close> gave them: for a finite \<open>convertedAmount\<close> and a finite amount this is
  a binary64 value nearest to the exact quotient (an infinity when the quotient is out of
  range). The rate shown is not that quotient but \<open>formatCurrency\<close> of it.
\<close>

theorem rate_is_quotient:
  assumes "sel_value (fromCurrency st) \<noteq> []" and "sel_value (toCurrency st) \<noteq> []"
    and "gt0 (parseFloat (amountInput st))"
    and "sel_value (fromCurrency st) \<noteq> sel_value (toCurrency st)"
    and "get_latest svc (latest_url rt (parseFloat (amountInput st))
           (sel_value (fromCurrency st)) (sel_value (toCurrency st)))
         = Response True status (Some (Some rates))"
    and "rates (sel_value (toCurrency st)) = Number convertedAmount"
  shows "(\<exists>st' amountText rateText.
           performConversion rt svc st = Inr st' \<and>
           lastConversion st' =
             Some \<lparr>conv_fromCurrency = sel_value (fromCurrency st),
                   conv_toCurrency = sel_value (toCurrency st),
                   conv_amount = parseFloat (amountInput st),
                   conv_rate = js_div convertedAmount (parseFloat (amountInput st))\<rparr> \<and>
           formatCurrency rt (Number convertedAmount) (sel_value (toCurrency st))
             = Inr amountText \<and>
           formatCurrency rt
               (Number (js_div convertedAmount (parseFloat (amountInput st))))
               (sel_value (toCurrency st))
             = Inr rateText \<and>
           resultsContent st' =
             ResultView amountText (num_to_string rt (parseFloat (amountInput st)))
               (sel_value (fromCurrency st)) rateText
               (name_or_code rt (currencies st) (sel_value (toCurrency st)))) \<and>
         (\<forall>s c a. convertedAmount = Fin s c \<and> 0 \<le> c \<and>
                  parseFloat (amountInput st) = Fin False a \<longrightarrow>
            (\<exists>v. js_div convertedAmount (parseFloat (amountInput st)) = Fin s v \<and>
                  nearest_binary64 (c / a) v) \<or>
            (js_div convertedAmount (parseFloat (amountInput st)) = Inf s \<and>
             2 ^ 1024 - 2 ^ 970 \<le> c / a))"
proof
  let ?t = "sel_value (toCurrency st)" and ?a = "parseFloat (amountInput st)"
  obtain amountText where fa: "formatCurrency rt (Number convertedAmount) ?t = Inr amountText"
    using formatCurrency_Number by blast
  obtain rateText where
    fr: "formatCurrency rt (Number (js_div convertedAmount ?a)) ?t = Inr rateText"
    using formatCurrency_Number by blast
  from performConversion_success [OF assms fa fr] fa fr
  show "\<exists>st' amountText rateText.
           performConversion rt svc st = Inr st' \<and>
           lastConversion st' =
             Some \<lparr>conv_fromCurrency = sel_value (fromCurrency st),
                   conv_toCurrency = sel_value (toCurrency st),
                   conv_amount = parseFloat (amountInput st),
                   conv_rate = js_div convertedAmount (parseFloat (amountInput st))\<rparr> \<and>
           formatCurrency rt (Number convertedAmount) (sel_value (toCurrency st))
             = Inr amountText \<and>
           formatCurrency rt
               (Number (js_div convertedAmount (parseFloat (amountInput st))))
               (sel_value (toCurrency st))
             = Inr rateText \<and>
           resultsContent st' =
             ResultView amountText (num_to_string rt (parseFloat (amountInput st)))
               (sel_value (fromCurrency st)) rateText
               (name_or_code rt (currencies st) (sel_value (toCurrency st)))"
    by (simp add: validateForm_frame)
next
  show "\<forall>s c a. convertedAmount = Fin s c \<and> 0 \<le> c \<and>
                  parseFloat (amountInput st) = Fin False a \<longrightarrow>
            (\<exists>v. js_div convertedAmount (parseFloat (amountInput st)) = Fin s v \<and>
                  nearest_binary64 (c / a) v) \<or>
            (js_div convertedAmount (parseFloat (amountInput st)) = Inf s \<and>
             2 ^ 1024 - 2 ^ 970 \<le> c / a)"
  proof (intro allI impI)
    fix s c a
    assume h: "convertedAmount = Fin s c \<and> 0 \<le> c \<and>
        parseFloat (amountInput st) = Fin False a"
    with assms(3) have "0 < a" by (simp add: value_of_def)
    with h js_div_nearest [of c a s] show
      "(\<exists>v. js_div convertedAmount (parseFloat (amountInput st)) = Fin s v \<and>
            nearest_binary64 (c / a) v) \<or>
       (js_div convertedAmount (parseFloat (amountInput st)) = Inf s \<and>
        2 ^ 1024 - 2 ^ 970 \<le> c / a)"
      by simp
  qed
qed

text \<open>
  The spec's scenario, 92.15 euros for 100 US dollars: the rate stored is
  \<open>8300134113243825 / 2 ^ 53\<close>, that is 0.9215000000000001, a binary64 value nearest to
  92.15 / 100.
\<close>

theorem rate_is_quotient_witness:
  "gt0 (parseFloat (amountInput (sample_form ''USD'' ''EUR'' ''100'' None))) \<and>
   (\<exists>st'. performConversion en_US quote_service
             (sample_form ''USD'' ''EUR'' ''100'' None) = Inr st' \<and>
          lastConversion st' =
            Some \<lparr>conv_fromCurrency = ''USD'', conv_toCurrency = ''EUR'',
                  conv_amount = Fin False 100,
                  conv_rate = Fin False (8300134113243825 / 9007199254740992)\<rparr>) \<and>
   nearest_binary64 (3242239887985869 / 35184372088832 / 100)
     (8300134113243825 / 9007199254740992)"
proof -
  let ?st = "sample_form ''USD'' ''EUR'' ''100'' None"
  let ?c = "3242239887985869 / 35184372088832 :: rat"
  let ?rates = "\<lambda>code. if code = ''EUR'' then Number (Fin False ?c) else Undefined"
  have amount: "parseFloat (amountInput ?st) = Fin False 100"
    by (simp add: sample_form_fields parseFloat_100)
  have h1: "sel_value (fromCurrency ?st) \<noteq> []"
    and h2: "sel_value (toCurrency ?st) \<noteq> []"
    and h3: "gt0 (parseFloat (amountInput ?st))"
    and h4: "sel_value (fromCurrency ?st) \<noteq> sel_value (toCurrency ?st)"
    by (simp_all add: sample_form_fields parseFloat_100 value_of_def)
  have h5: "get_latest quote_service (latest_url en_US (parseFloat (amountInput ?st))
        (sel_value (fromCurrency ?st)) (sel_value (toCurrency ?st)))
      = Response True 200 (Some (Some ?rates))"
    by (simp add: quote_service_def)
  have h6: "?rates (sel_value (toCurrency ?st)) = Number (Fin False ?c)"
    by (simp add: sample_form_fields)
  have quotient: "js_div (Fin False ?c) (parseFloat (amountInput ?st)) =
      Fin False (8300134113243825 / 9007199254740992)"
    by (simp add: sample_form_fields parseFloat_100 round64_quote)
  note main = rate_is_quotient [OF h1 h2 h3 h4 h5 h6]
  from main obtain st' where
    run: "performConversion en_US quote_service ?st = Inr st'"
    and lc: "lastConversion st' =
        Some \<lparr>conv_fromCurrency = sel_value (fromCurrency ?st),
              conv_toCurrency = sel_value (toCurrency ?st),
              conv_amount = parseFloat (amountInput ?st),
              conv_rate = js_div (Fin False ?c) (parseFloat (amountInput ?st))\<rparr>"
    by blast
  from lc have stored: "lastConversion st' =
      Some \<lparr>conv_fromCurrency = ''USD'', conv_toCurrency = ''EUR'',
            conv_amount = Fin False 100,
            conv_rate = Fin False (8300134113243825 / 9007199254740992)\<rparr>"
    by (simp only: quotient) (simp add: sample_form_fields parseFloat_100)
  from main have "\<forall>s c a. Fin False ?c = Fin s c \<and> 0 \<le> c \<and>
        parseFloat (amountInput ?st) = Fin False a \<longrightarrow>
      (\<exists>v. js_div (Fin False ?c) (parseFloat (amountInput ?st)) = Fin s v \<and>
          nearest_binary64 (c / a) v) \<or>
      (js_div (Fin False ?c) (parseFloat (amountInput ?st)) = Inf s \<and>
       2 ^ 1024 - 2 ^ 970 \<le> c / a)"
    by (rule conjunct2)
  moreover have "(0::rat) \<le> ?c" by simp
  ultimately have "(\<exists>v. js_div (Fin False ?c) (parseFloat (amountInput ?st)) = Fin False v \<and>
        nearest_binary64 (?c / 100) v) \<or>
      (js_div (Fin False ?c) (parseFloat (amountInput ?st)) = Inf False \<and>
       2 ^ 1024 - 2 ^ 970 \<le> ?c / 100)"
    using amount by blast
  then have near: "nearest_binary64 (?c / 100) (8300134113243825 / 9007199254740992)"
    unfolding quotient by (auto simp only: jsnum.inject jsnum.distinct)
  from run stored h3 near show ?thesis by blast
qed

text \<open>
  C2 as stated has the rate displayed equal the quotient. In the spec's scenario the rate
  stored is 0.9215000000000001, while the results region shows 0.92 (the spec expects
  0.9215 there); read back as a Number, what is shown is not the rate stored.
\<close>

theorem displayed_rate_counterexample:
  "performConversion en_US quote_service (sample_form ''USD'' ''EUR'' ''100'' None) =
     Inr ((sample_form ''USD'' ''EUR'' ''100'' None)
            \<lparr>resultsContent :=
               ResultView (euro_sign @ ''92.15'') ''100'' ''USD'' (euro_sign @ ''0.92'') ''Euro'',
             requests := [''https://api.frankfurter.app/latest?amount=100&from=USD&to=EUR''],
             lastConversion :=
               Some \<lparr>conv_fromCurrency = ''USD'', conv_toCurrency = ''EUR'',
                     conv_amount = Fin False 100,
                     conv_rate = Fin False (8300134113243825 / 9007199254740992)\<rparr>\<rparr>) \<and>
   parseFloat ''0.92'' \<noteq> Fin False (8300134113243825 / 9007199254740992)"
proof -
  let ?st = "sample_form ''USD'' ''EUR'' ''100'' None"
  let ?c = "3242239887985869 / 35184372088832 :: rat"
  let ?rates = "\<lambda>code. if code = ''EUR'' then Number (Fin False ?c) else Undefined"
  have amount: "parseFloat (amountInput ?st) = Fin False 100"
    by (simp add: sample_form_fields parseFloat_100)
  have quotient: "js_div (Fin False ?c) (parseFloat (amountInput ?st)) =
      Fin False (8300134113243825 / 9007199254740992)"
    by (simp add: sample_form_fields parseFloat_100 round64_quote)
  have h1: "sel_value (fromCurrency ?st) \<noteq> []"
    and h2: "sel_value (toCurrency ?st) \<noteq> []"
    and h3: "gt0 (parseFloat (amountInput ?st))"
    and h4: "sel_value (fromCurrency ?st) \<noteq> sel_value (toCurrency ?st)"
    by (simp_all add: sample_form_fields parseFloat_100 value_of_def)
  have h5: "get_latest quote_service (latest_url en_US (parseFloat (amountInput ?st))
        (sel_value (fromCurrency ?st)) (sel_value (toCurrency ?st)))
      = Response True 200 (Some (Some ?rates))"
    by (simp add: quote_service_def)
  have h6: "?rates (sel_value (toCurrency ?st)) = Number (Fin False ?c)"
    by (simp add: sample_form_fields)
  have fa: "formatCurrency en_US (Number (Fin False ?c)) (sel_value (toCurrency ?st)) =
      Inr (euro_sign @ ''92.15'')"
    by (simp add: sample_form_fields formatCurrency_en_US en_US_number_values)
  have fr: "formatCurrency en_US
      (Number (js_div (Fin False ?c) (parseFloat (amountInput ?st))))
      (sel_value (toCurrency ?st)) = Inr (euro_sign @ ''0.92'')"
    by (simp only: quotient) (simp add: sample_form_fields formatCurrency_en_US
        en_US_number_values)
  have shown: "num_to_string en_US (parseFloat (amountInput ?st)) = ''100''"
    by (simp add: sample_form_fields parseFloat_100 digits_of_digit digits_of_more)
  have url: "latest_url en_US (parseFloat (amountInput ?st)) (sel_value (fromCurrency ?st))
      (sel_value (toCurrency ?st)) =
      ''https://api.frankfurter.app/latest?amount=100&from=USD&to=EUR''"
    by (simp add: sample_form_fields parseFloat_100 latest_url_def apiBaseUrl_def digits_of_digit
        digits_of_more)
  have name: "name_or_code en_US (currencies ?st) (sel_value (toCurrency ?st)) = ''Euro''"
    by (simp add: name_or_code_def sample_form_fields)
  have "performConversion en_US quote_service ?st =
      Inr (validateForm
        (?st\<lparr>convertBtn_disabled := True,
             requests := requests ?st @
               [''https://api.frankfurter.app/latest?amount=100&from=USD&to=EUR''],
             resultsContent :=
               ResultView (euro_sign @ ''92.15'') ''100'' ''USD'' (euro_sign @ ''0.92'') ''Euro'',
             lastConversion :=
               Some \<lparr>conv_fromCurrency = ''USD'', conv_toCurrency = ''EUR'',
                     conv_amount = Fin False 100,
                     conv_rate = Fin False (8300134113243825 / 9007199254740992)\<rparr>\<rparr>))"
    using performConversion_success [OF h1 h2 h3 h4 h5 h6 fa fr]
    by (simp only: shown url name quotient) (simp add: sample_form_fields parseFloat_100)
  then show ?thesis
    by (simp add: validateForm_def sample_form_def parseFloat_100 parseFloat_0_92
        value_of_def)
qed

subsection \<open>Validation\<close>

text \<open>
  C3, as the code has it. \<open>validateForm\<close> enables the button exactly when both selections
  and the amount field are non-empty and the parsed amount is greater than 0. The parsed
  amount need not be finite: \<open>Infinity > 0\<close> holds, so an amount that parses to
  \<open>Infinity\<close> passes. Validation fails whenever the amount parses to \<open>NaN\<close> or is at most 0.
\<close>

theorem validateForm_enabled_iff:
  "(\<not> convertBtn_disabled (validateForm st)) =
     (sel_value (fromCurrency st) \<noteq> [] \<and> sel_value (toCurrency st) \<noteq> [] \<and>
      amountInput st \<noteq> [] \<and> gt0 (parseFloat (amountInput st)))
   \<and> (parseFloat (amountInput st) = NaN \<or> le0 (parseFloat (amountInput st))
        \<longrightarrow> convertBtn_disabled (validateForm st))"
  by (auto simp: validateForm_def gt0_iff)

theorem validateForm_enabled_iff_witness:
  "parseFloat (amountInput (sample_form ''USD'' ''EUR'' ''abc'' None)) = NaN
   \<and> convertBtn_disabled (validateForm (sample_form ''USD'' ''EUR'' ''abc'' None))"
proof -
  have "parseFloat (amountInput (sample_form ''USD'' ''EUR'' ''abc'' None)) = NaN"
    by (simp add: sample_form_fields parseFloat_abc)
  with validateForm_enabled_iff [of "sample_form ''USD'' ''EUR'' ''abc'' None"]
  show ?thesis by blast
qed

text \<open>
  C3 as stated asks for a finite parsed amount. With the amount field holding \<open>1e309\<close>,
  which parses to \<open>Infinity\<close>, the button is enabled though the amount is not finite.
\<close>

theorem validateForm_finite_counterexample:
  "\<not> ((\<not> convertBtn_disabled (validateForm (sample_form ''USD'' ''EUR'' ''1e309'' None))) =
       (sel_value (fromCurrency (sample_form ''USD'' ''EUR'' ''1e309'' None)) \<noteq> [] \<and>
        sel_value (toCurrency (sample_form ''USD'' ''EUR'' ''1e309'' None)) \<noteq> [] \<and>
        amountInput (sample_form ''USD'' ''EUR'' ''1e309'' None) \<noteq> [] \<and>
        is_finite (parseFloat (amountInput (sample_form ''USD'' ''EUR'' ''1e309'' None))) \<and>
        gt0 (parseFloat (amountInput (sample_form ''USD'' ''EUR'' ''1e309'' None)))))"
  by (simp add: validateForm_def sample_form_def parseFloat_1e309)

subsection \<open>Swapping\<close>

text \<open>
  C4, as the code has it. With both selections non-empty, \<open>swapCurrencies\<close> assigns each
  selector the other's value; a selector takes a value it offers, and the two selectors
  offer the same values once the catalog is loaded (\<open>load_try_alike\<close>), so the selections
  are exchanged. It converts again only when a last conversion is recorded and the amount
  field is non-empty: the swap is then \<open>performConversion\<close> run on the exchanged form, which
  for a valid amount and two different codes fetches the mirrored request. With no last
  conversion recorded the swap is the exchanged form and nothing else.
\<close>

theorem swapCurrencies_reconverts:
  assumes "sel_value (fromCurrency st) = f" and "sel_value (toCurrency st) = t"
    and "f \<noteq> []" and "t \<noteq> []"
  shows "(amountInput st \<noteq> [] \<and> lastConversion st \<noteq> None \<longrightarrow>
            performConversion rt svc
              (st\<lparr>fromCurrency := set_value t (fromCurrency st),
                  toCurrency := set_value f (toCurrency st)\<rparr>)
              = Inr (swapCurrencies rt svc st)) \<and>
         (lastConversion st = None \<or> amountInput st = [] \<longrightarrow>
            swapCurrencies rt svc st =
              st\<lparr>fromCurrency := set_value t (fromCurrency st),
                  toCurrency := set_value f (toCurrency st)\<rparr>) \<and>
         fromCurrency (swapCurrencies rt svc st) = set_value t (fromCurrency st) \<and>
         toCurrency (swapCurrencies rt svc st) = set_value f (toCurrency st) \<and>
         amountInput (swapCurrencies rt svc st) = amountInput st \<and>
         (t \<in> snd ` set (sel_options (fromCurrency st)) \<and>
          f \<in> snd ` set (sel_options (toCurrency st)) \<longrightarrow>
            sel_value (fromCurrency (swapCurrencies rt svc st)) = t \<and>
            sel_value (toCurrency (swapCurrencies rt svc st)) = f \<and>
            (amountInput st \<noteq> [] \<and> lastConversion st \<noteq> None \<and>
             gt0 (parseFloat (amountInput st)) \<and> f \<noteq> t \<longrightarrow>
               requests (swapCurrencies rt svc st) =
                 requests st @ [latest_url rt (parseFloat (amountInput st)) t f]))"
proof -
  let ?st2 = "st\<lparr>fromCurrency := set_value t (fromCurrency st),
      toCurrency := set_value f (toCurrency st)\<rparr>"
  from performConversion_returns [of rt svc ?st2] obtain st' where
    run: "performConversion rt svc ?st2 = Inr st'"
    and fr: "fromCurrency st' = fromCurrency ?st2" "toCurrency st' = toCurrency ?st2"
      "amountInput st' = amountInput ?st2"
    by blast
  have swap: "swapCurrencies rt svc st =
      (if lastConversion st \<noteq> None \<and> amountInput st \<noteq> [] then st' else ?st2)"
    using assms run by (simp add: swapCurrencies_def Let_def)
  have fetch: "requests st' = requests st @ [latest_url rt (parseFloat (amountInput st)) t f]"
    if offered: "t \<in> snd ` set (sel_options (fromCurrency st))"
      "f \<in> snd ` set (sel_options (toCurrency st))"
      and valid: "gt0 (parseFloat (amountInput st))" "f \<noteq> t"
  proof -
    from offered have v: "sel_value (fromCurrency ?st2) = t" "sel_value (toCurrency ?st2) = f"
      by (simp_all add: set_value_def)
    have "sel_value (fromCurrency ?st2) \<noteq> []" "sel_value (toCurrency ?st2) \<noteq> []"
      "gt0 (parseFloat (amountInput ?st2))"
      "sel_value (fromCurrency ?st2) \<noteq> sel_value (toCurrency ?st2)"
      using v valid assms(3,4) by simp_all
    from performConversion_fetches [OF this run] v show ?thesis by simp
  qed
  have chosen: "sel_value (fromCurrency ?st2) = t \<and> sel_value (toCurrency ?st2) = f"
    if "t \<in> snd ` set (sel_options (fromCurrency st))"
      "f \<in> snd ` set (sel_options (toCurrency st))"
    using that by (simp add: set_value_def)
  show ?thesis
    using swap run fr fetch chosen by auto
qed

text \<open>
  The form with USD, EUR, amount 10 and a last conversion: the swap selects EUR and USD
  and fetches the conversion of 10 from EUR to USD.
\<close>

theorem swapCurrencies_reconverts_witness:
  "lastConversion (sample_form ''USD'' ''EUR'' ''10'' (Some sample_conversion)) \<noteq> None \<and>
   sel_value (fromCurrency (swapCurrencies sample_runtime rates_service
      (sample_form ''USD'' ''EUR'' ''10'' (Some sample_conversion)))) = ''EUR'' \<and>
   sel_value (toCurrency (swapCurrencies sample_runtime rates_service
      (sample_form ''USD'' ''EUR'' ''10'' (Some sample_conversion)))) = ''USD'' \<and>
   requests (swapCurrencies sample_runtime rates_service
      (sample_form ''USD'' ''EUR'' ''10'' (Some sample_conversion))) =
     [''https://api.frankfurter.app/latest?amount=10&from=EUR&to=USD'']"
proof -
  let ?st = "sample_form ''USD'' ''EUR'' ''10'' (Some sample_conversion)"
  have h: "sel_value (fromCurrency ?st) = ''USD''" "sel_value (toCurrency ?st) = ''EUR''"
    "''USD'' \<noteq> []" "''EUR'' \<noteq> []"
    by (simp_all add: sample_form_def)
  have offered: "''EUR'' \<in> snd ` set (sel_options (fromCurrency ?st)) \<and>
      ''USD'' \<in> snd ` set (sel_options (toCurrency ?st))"
    by (simp add: sample_form_def sample_options_def)
  have valid: "amountInput ?st \<noteq> [] \<and> lastConversion ?st \<noteq> None \<and>
      gt0 (parseFloat (amountInput ?st)) \<and> ''USD'' \<noteq> ''EUR''"
    by (simp add: sample_form_fields parseFloat_10 value_of_def)
  have url: "latest_url sample_runtime (parseFloat (amountInput ?st)) ''EUR'' ''USD'' =
      ''https://api.frankfurter.app/latest?amount=10&from=EUR&to=USD''"
    by (simp add: sample_form_fields parseFloat_10 latest_url_def apiBaseUrl_def
        num_to_string_10)
  from swapCurrencies_reconverts [OF h, of sample_runtime rates_service] offered valid
  have "sel_value (fromCurrency (swapCurrencies sample_runtime rates_service ?st)) = ''EUR'' \<and>
      sel_value (toCurrency (swapCurrencies sample_runtime rates_service ?st)) = ''USD'' \<and>
      requests (swapCurrencies sample_runtime rates_service ?st) =
        requests ?st @ [latest_url sample_runtime (parseFloat (amountInput ?st)) ''EUR'' ''USD'']"
    by blast
  with url valid show ?thesis by (simp add: sample_form_fields)
qed

text \<open>
  C4 as stated makes every swap with both selections and an amount convert again. On the
  form with USD, EUR and amount 10 but no last conversion, the swap exchanges the selections
  and does nothing else: no request is issued and the results region keeps its content.
\<close>

theorem swapCurrencies_reissue_counterexample:
  "sel_value (fromCurrency (sample_form ''USD'' ''EUR'' ''10'' None)) \<noteq> [] \<and>
   sel_value (toCurrency (sample_form ''USD'' ''EUR'' ''10'' None)) \<noteq> [] \<and>
   amountInput (sample_form ''USD'' ''EUR'' ''10'' None) \<noteq> [] \<and>
   swapCurrencies sample_runtime rates_service (sample_form ''USD'' ''EUR'' ''10'' None) =
     sample_form ''EUR'' ''USD'' ''10'' None \<and>
   requests (sample_form ''EUR'' ''USD'' ''10'' None) = [] \<and>
   resultsContent (sample_form ''EUR'' ''USD'' ''10'' None) = Markup []"
  by (simp add: swapCurrencies_def set_value_def sample_form_def sample_options_def Let_def)

text \<open>
  C10. When one of the two selections is empty, \<open>swapCurrencies\<close> changes nothing: the
  selections, the requests issued and every other field stay as they were.
\<close>

theorem swapCurrencies_noop:
  "sel_value (fromCurrency st) = [] \<or> sel_value (toCurrency st) = []
     \<Longrightarrow> swapCurrencies rt svc st = st"
  by (auto simp: swapCurrencies_def)

theorem swapCurrencies_noop_witness:
  "sel_value (fromCurrency (sample_form [] ''EUR'' ''10'' None)) = []
   \<and> swapCurrencies sample_runtime rates_service (sample_form [] ''EUR'' ''10'' None)
       = sample_form [] ''EUR'' ''10'' None"
proof -
  have h: "sel_value (fromCurrency (sample_form [] ''EUR'' ''10'' None)) = []"
    by (simp add: sample_form_def)
  then have "sel_value (fromCurrency (sample_form [] ''EUR'' ''10'' None)) = []
      \<or> sel_value (toCurrency (sample_form [] ''EUR'' ''10'' None)) = []" ..
  from swapCurrencies_noop [OF this] h show ?thesis by simp
qed

subsection \<open>The last conversion\<close>

text \<open>
  C5 at an identity conversion. On the form with USD on both sides, amount 10 and no last
  conversion, \<open>performConversion\<close> shows the result (10 US dollars, rate 1) and returns at
  once: the \<open>lastConversion\<close> slot is still empty after this successful conversion.
\<close>

theorem lastConversion_skipped_on_identity:
  "performConversion sample_runtime rates_service (sample_form ''USD'' ''USD'' ''10'' None) =
     Inr ((sample_form ''USD'' ''USD'' ''10'' None)
            \<lparr>resultsContent :=
               ResultView ''USD 10.00'' ''10'' ''USD'' ''USD 1.00'' ''US Dollar''\<rparr>) \<and>
   lastConversion ((sample_form ''USD'' ''USD'' ''10'' None)
            \<lparr>resultsContent :=
               ResultView ''USD 10.00'' ''10'' ''USD'' ''USD 1.00'' ''US Dollar''\<rparr>) = None"
proof -
  let ?st = "sample_form ''USD'' ''USD'' ''10'' None"
  have "performConversion sample_runtime rates_service ?st =
      displayResult sample_runtime (Number (Fin False 10)) ''USD'' ''USD'' (Fin False 1) None ?st"
    using performConversion_identity [of ?st sample_runtime rates_service]
    by (simp add: sample_form_fields parseFloat_10 value_of_def)
  also have "\<dots> = Inr (?st\<lparr>resultsContent :=
      ResultView ''USD 10.00'' ''10'' ''USD'' ''USD 1.00'' ''US Dollar''\<rparr>)"
    using displayResult_Number [of sample_runtime "Fin False 10" "''USD''" "''USD 10.00''"
        "Fin False 1" "''USD 1.00''" "''USD''" None ?st]
    by (simp add: formatCurrency_sample toFixed2_values sample_form_fields parseFloat_10
        num_to_string_10 name_or_code_def)
  finally show ?thesis by (simp add: sample_form_fields)
qed

text \<open>
  The form of this run passes the gate of \<open>performConversion\<close>, so the conversion is a
  successful one, and the state it returns has no last conversion.
\<close>

theorem lastConversion_skipped_on_identity_witness:
  "\<not> (sel_value (fromCurrency (sample_form ''USD'' ''USD'' ''10'' None)) = [] \<or>
       sel_value (toCurrency (sample_form ''USD'' ''USD'' ''10'' None)) = [] \<or>
       \<not> truthy (parseFloat (amountInput (sample_form ''USD'' ''USD'' ''10'' None))) \<or>
       le0 (parseFloat (amountInput (sample_form ''USD'' ''USD'' ''10'' None)))) \<and>
   (\<exists>st'. performConversion sample_runtime rates_service
             (sample_form ''USD'' ''USD'' ''10'' None) = Inr st' \<and>
          lastConversion st' = None)"
proof -
  have "\<not> (sel_value (fromCurrency (sample_form ''USD'' ''USD'' ''10'' None)) = [] \<or>
       sel_value (toCurrency (sample_form ''USD'' ''USD'' ''10'' None)) = [] \<or>
       \<not> truthy (parseFloat (amountInput (sample_form ''USD'' ''USD'' ''10'' None))) \<or>
       le0 (parseFloat (amountInput (sample_form ''USD'' ''USD'' ''10'' None))))"
    by (simp add: sample_form_fields parseFloat_10 value_of_def)
  with lastConversion_skipped_on_identity show ?thesis by blast
qed

subsection \<open>Failures\<close>

text \<open>
  C6. When the gate is passed, the codes differ and the fetch fails (it is rejected, the
  status is not a success, or the body is not JSON), \<open>performConversion\<close> returns normally,
  the results region shows the conversion-failure message, and \<open>lastConversion\<close> is what it
  was before. Lemma \<open>performConversion_caught\<close> gives the same for any exception of the
  \<open>try\<close> block.
\<close>

theorem conversion_failure_atomic:
  assumes "sel_value (fromCurrency st) \<noteq> []" and "sel_value (toCurrency st) \<noteq> []"
    and "gt0 (parseFloat (amountInput st))"
    and "sel_value (fromCurrency st) \<noteq> sel_value (toCurrency st)"
    and "failed (get_latest svc (latest_url rt (parseFloat (amountInput st))
           (sel_value (fromCurrency st)) (sel_value (toCurrency st))))"
  shows "\<exists>st'. performConversion rt svc st = Inr st' \<and>
           resultsContent st' = ErrorView ''Failed to convert currency. Please try again.'' \<and>
           lastConversion st' = lastConversion st"
proof -
  from convert_try_failed [OF assms(5)] obtain e where
    "convert_try rt
       (get_latest svc (latest_url rt (parseFloat (amountInput st))
          (sel_value (fromCurrency st)) (sel_value (toCurrency st))))
       (sel_value (fromCurrency st)) (sel_value (toCurrency st))
       (parseFloat (amountInput st))
       (st\<lparr>resultsContent := LoadingView ''Converting...'',
            convertBtn_disabled := True,
            requests := requests st @
              [latest_url rt (parseFloat (amountInput st))
                 (sel_value (fromCurrency st)) (sel_value (toCurrency st))]\<rparr>) = Inl e"
    by blast
  with assms(1-4) show ?thesis by (rule performConversion_caught)
qed

theorem conversion_failure_atomic_witness:
  "failed (get_latest failing_service
     (latest_url sample_runtime
        (parseFloat (amountInput (sample_form ''USD'' ''EUR'' ''10'' (Some sample_conversion))))
        ''USD'' ''EUR'')) \<and>
   (\<exists>st'. performConversion sample_runtime failing_service
             (sample_form ''USD'' ''EUR'' ''10'' (Some sample_conversion)) = Inr st' \<and>
          resultsContent st' = ErrorView ''Failed to convert currency. Please try again.'' \<and>
          lastConversion st' = Some sample_conversion)"
proof -
  let ?st = "sample_form ''USD'' ''EUR'' ''10'' (Some sample_conversion)"
  have h1: "sel_value (fromCurrency ?st) \<noteq> []"
    and h2: "sel_value (toCurrency ?st) \<noteq> []"
    and h3: "gt0 (parseFloat (amountInput ?st))"
    and h4: "sel_value (fromCurrency ?st) \<noteq> sel_value (toCurrency ?st)"
    by (simp_all add: sample_form_fields parseFloat_10 value_of_def)
  have h5: "failed (get_latest failing_service
      (latest_url sample_runtime (parseFloat (amountInput ?st))
         (sel_value (fromCurrency ?st)) (sel_value (toCurrency ?st))))"
    by (simp add: failing_service_def)
  from conversion_failure_atomic [OF h1 h2 h3 h4 h5] h5
  show ?thesis by (simp add: sample_form_fields)
qed

text \<open>
  C7. When the fetch of the catalog fails, \<open>loadCurrencies\<close> returns normally, the results
  region shows the failed-to-load message, and both selectors are as they were: selectors
  that held only the placeholder option, as the page's markup is taken to leave them,
  still hold only that option.
\<close>

theorem loadCurrencies_failure:
  assumes "failed (get_currencies svc (apiBaseUrl @ ''/currencies''))"
  shows "\<exists>st'. loadCurrencies rt svc st = Inr st' \<and>
           resultsContent st' =
             ErrorView ''Failed to load currencies. Please refresh the page.'' \<and>
           fromCurrency st' = fromCurrency st \<and> toCurrency st' = toCurrency st \<and>
           (fromCurrency st = placeholder \<and> toCurrency st = placeholder \<longrightarrow>
              sel_options (fromCurrency st') = [(''Select Currency'', [])] \<and>
              sel_options (toCurrency st') = [(''Select Currency'', [])])"
proof -
  have "\<exists>e. load_try rt (get_currencies svc (apiBaseUrl @ ''/currencies'')) s = Inl e" for s
    using assms by (cases "get_currencies svc (apiBaseUrl @ ''/currencies'')")
      (auto simp: load_try_def)
  then obtain e where
    "load_try rt (get_currencies svc (apiBaseUrl @ ''/currencies''))
       (st\<lparr>resultsContent := LoadingView ''Loading currencies...'',
           requests := requests st @ [apiBaseUrl @ ''/currencies'']\<rparr>) = Inl e"
    by blast
  then show ?thesis
    by (simp add: loadCurrencies_def Let_def showLoading_def showError_def placeholder_def)
qed

theorem loadCurrencies_failure_witness:
  "failed (get_currencies failing_service (apiBaseUrl @ ''/currencies'')) \<and>
   fromCurrency blank_page = placeholder \<and> toCurrency blank_page = placeholder \<and>
   (\<exists>st'. loadCurrencies sample_runtime failing_service blank_page = Inr st' \<and>
          resultsContent st' =
            ErrorView ''Failed to load currencies. Please refresh the page.'' \<and>
          sel_options (fromCurrency st') = [(''Select Currency'', [])] \<and>
          sel_options (toCurrency st') = [(''Select Currency'', [])])"
proof -
  have h: "failed (get_currencies failing_service (apiBaseUrl @ ''/currencies''))"
    by (simp add: failing_service_def)
  have p: "fromCurrency blank_page = placeholder \<and> toCurrency blank_page = placeholder"
    by (simp add: blank_page_def)
  from loadCurrencies_failure [OF h, of sample_runtime blank_page] h p
  show ?thesis by auto
qed

subsection \<open>The gate before the request\<close>

text \<open>
  C8. \<open>performConversion\<close> always returns. When a selection is empty or the parsed amount
  is not greater than 0, it issues no request and shows the validation message. In every
  case the list of requests is either unchanged or extended by the one request of this
  conversion, and the latter only when both selections are non-empty and the parsed
  amount is greater than 0.
\<close>

theorem conversion_request_gate:
  "(\<not> (sel_value (fromCurrency st) \<noteq> [] \<and> sel_value (toCurrency st) \<noteq> [] \<and>
        gt0 (parseFloat (amountInput st)))
      \<longrightarrow> (\<exists>st'. performConversion rt svc st = Inr st' \<and> requests st' = requests st \<and>
             resultsContent st' = ErrorView ''Please fill in all fields with valid values.''))
   \<and> (\<exists>st'. performConversion rt svc st = Inr st' \<and>
         (requests st' = requests st \<or>
          sel_value (fromCurrency st) \<noteq> [] \<and> sel_value (toCurrency st) \<noteq> [] \<and>
          gt0 (parseFloat (amountInput st)) \<and>
          requests st' = requests st @
            [latest_url rt (parseFloat (amountInput st))
               (sel_value (fromCurrency st)) (sel_value (toCurrency st))]))"
proof
  show "\<not> (sel_value (fromCurrency st) \<noteq> [] \<and> sel_value (toCurrency st) \<noteq> [] \<and>
        gt0 (parseFloat (amountInput st)))
      \<longrightarrow> (\<exists>st'. performConversion rt svc st = Inr st' \<and> requests st' = requests st \<and>
             resultsContent st' = ErrorView ''Please fill in all fields with valid values.'')"
  proof
    assume "\<not> (sel_value (fromCurrency st) \<noteq> [] \<and> sel_value (toCurrency st) \<noteq> [] \<and>
        gt0 (parseFloat (amountInput st)))"
    then have "performConversion rt svc st =
        Inr (showError ''Please fill in all fields with valid values.'' st)"
      by (rule performConversion_gate_error)
    then show "\<exists>st'. performConversion rt svc st = Inr st' \<and> requests st' = requests st \<and>
        resultsContent st' = ErrorView ''Please fill in all fields with valid values.''"
      by (simp add: showError_def)
  qed
next
  from performConversion_returns [of rt svc st]
  show "\<exists>st'. performConversion rt svc st = Inr st' \<and>
         (requests st' = requests st \<or>
          sel_value (fromCurrency st) \<noteq> [] \<and> sel_value (toCurrency st) \<noteq> [] \<and>
          gt0 (parseFloat (amountInput st)) \<and>
          requests st' = requests st @
            [latest_url rt (parseFloat (amountInput st))
               (sel_value (fromCurrency st)) (sel_value (toCurrency st))])"
    by blast
qed

theorem conversion_request_gate_witness:
  "\<not> gt0 (parseFloat (amountInput (sample_form ''USD'' ''EUR'' ''abc'' None))) \<and>
   (\<exists>st'. performConversion sample_runtime rates_service
             (sample_form ''USD'' ''EUR'' ''abc'' None) = Inr st' \<and>
          requests st' = [] \<and>
          resultsContent st' = ErrorView ''Please fill in all fields with valid values.'')"
proof -
  let ?st = "sample_form ''USD'' ''EUR'' ''abc'' None"
  have h: "\<not> gt0 (parseFloat (amountInput ?st))"
    by (simp add: sample_form_fields parseFloat_abc)
  with conversion_request_gate [of ?st sample_runtime rates_service]
  show ?thesis by (simp add: sample_form_fields)
qed

subsection \<open>Formatting\<close>

text \<open>
  C9, as the code has it. For every Number \<open>x\<close> and every code, \<open>formatCurrency\<close> returns
  a string and does not throw. When \<open>Intl.NumberFormat\<close> rejects the code, the string is the
  code, a space and \<open>x.toFixed(2)\<close>, which contains the code and those digits; for the
  amount 5 it is the code followed by \<open>5.00\<close>.
\<close>

theorem formatCurrency_total:
  "(\<exists>out. formatCurrency rt (Number x) code = Inr out) \<and>
   (numberFormat rt code = None \<longrightarrow>
      formatCurrency rt (Number x) code = Inr (code @ '' '' @ toFixed2 rt x) \<and>
      contains (code @ '' '' @ toFixed2 rt x) code \<and>
      contains (code @ '' '' @ toFixed2 rt x) (toFixed2 rt x)) \<and>
   (numberFormat rt code = None \<longrightarrow>
      formatCurrency rt (Number (Fin False 5)) code = Inr (code @ '' 5.00'') \<and>
      contains (code @ '' 5.00'') code \<and> contains (code @ '' 5.00'') ''5.00'')"
proof -
  have "contains (code @ '' '' @ toFixed2 rt x) code"
    by (rule contains_prefix)
  moreover have "contains (code @ '' '' @ toFixed2 rt x) (toFixed2 rt x)"
    using contains_suffix [of "code @ '' ''" "toFixed2 rt x"] by simp
  moreover have "contains (code @ '' 5.00'') code"
    by (rule contains_prefix)
  moreover have "contains (code @ '' 5.00'') ''5.00''"
    using contains_suffix [of "code @ '' ''" "''5.00''"] by simp
  ultimately show ?thesis
    by (simp add: formatCurrency_def toFixed2_values split: option.split)
qed

text \<open>
  In the \<open>en-US\<close> runtime the code \<open>XX\<close> is not well-formed and is rejected: 5 is
  rendered as \<open>XX 5.00\<close>.
\<close>

theorem formatCurrency_total_witness:
  "numberFormat en_US ''XX'' = None \<and>
   formatCurrency en_US (Number (Fin False 5)) ''XX'' = Inr ''XX 5.00'' \<and>
   contains ''XX 5.00'' ''XX'' \<and> contains ''XX 5.00'' ''5.00''"
proof -
  have h: "numberFormat en_US ''XX'' = None"
    by (simp add: en_US_def well_formed_samples)
  with formatCurrency_total [of en_US "Fin False 5" "''XX''"]
  show ?thesis by (simp add: toFixed2_values)
qed

text \<open>
  C9 as stated has the rendering of 5 for the code \<open>XXX\<close> contain \<open>XXX\<close>, and formatting
  never throw. \<open>XXX\<close> is three letters, so \<open>Intl.NumberFormat\<close> accepts it and formats 5
  itself, with the generic currency sign and without the letters \<open>XXX\<close>; the fallback is
  not reached. And with a rejected code the fallback calls \<open>toFixed\<close> on the
  amount, which throws when the amount is \<open>undefined\<close>.
\<close>

theorem formatCurrency_XXX_counterexample:
  "formatCurrency en_US (Number (Fin False 5)) ''XXX'' =
     Inr (generic_currency_sign @ ''5.00'') \<and>
   \<not> contains (generic_currency_sign @ ''5.00'') ''XXX'' \<and>
   formatCurrency en_US Undefined ''XX'' = Inl TypeError"
  by (simp add: formatCurrency_en_US en_US_number_values generic_currency_sign_def)

end
